theory Spec2Isabelle
  imports Complex_Main
begin

section \<open>Labeled arrays\<close>

text \<open>
  The functions of \<^verbatim>\<open>paper1_code/utils/time_series.py\<close> work on xarray DataArrays.
  A DataArray is modelled by a record of its named axes (\<^verbatim>\<open>arr.dims\<close>), their lengths
  (\<^verbatim>\<open>arr.shape\<close>), its coordinates (a dict from a coordinate name to the values along that
  axis), its attribute dict and its payload.
  The payload type is a parameter: the stages that build new arrays carry the values
  themselves, the stage that writes into its argument carries the address of a buffer
  in an explicit store.

  Python floats are idealised as reals. A coordinate value is a float, a calendar date
  (\<^verbatim>\<open>cftime.datetime\<close>, as seconds on its calendar's time line), an integer or a value
  of another type.
\<close>

datatype cval = CFloat real | CDate real | CInt int | COther string

fun is_float :: "cval \<Rightarrow> bool" where
  "is_float (CFloat _) = True"
| "is_float _ = False"

fun is_date :: "cval \<Rightarrow> bool" where
  "is_date (CDate _) = True"
| "is_date _ = False"

record 'd darray =
  dims :: "string list"
  shape :: "nat list"
  coords :: "string \<rightharpoonup> cval list"
  attrs :: "string \<rightharpoonup> string"
  data :: 'd

text \<open>
  Exceptions are values. \<^verbatim>\<open>ValueError\<close> and \<^verbatim>\<open>TypeError\<close> carry the start of their
  message, which tells the raises of this module from those of the libraries. The spec
  calls \<open>ValueError ''weighted_ends must be between 0 and 1''\<close> the InvalidParameter
  condition and \<open>TypeError ''I cannot handle time arrays''\<close> the UnsupportedTimeAxis
  condition.
\<close>

datatype error =
    ValueError string
  | TypeError string
  | KeyError string
  | AttributeError string
  | IndexError
  | ZeroDivisionError

text \<open>The lines the module prints.\<close>

datatype out_line = DontKnowHowToShift | NoFrequenciesRemoved | HintPlot

text \<open>\<^verbatim>\<open>arr.sizes\<close>: the length of each axis.\<close>

definition sizes :: "'d darray \<Rightarrow> string \<rightharpoonup> nat" where
  "sizes arr = map_of (zip (dims arr) (shape arr))"

definition set_size :: "string \<Rightarrow> nat \<Rightarrow> 'd darray \<Rightarrow> 'd darray" where
  "set_size name n arr =
     arr\<lparr>shape := map (\<lambda>(d, m). if d = name then n else m) (zip (dims arr) (shape arr))\<rparr>"

text \<open>
  \<^verbatim>\<open>getattr(arr, name).data\<close>: the values of the coordinate of that name; for an axis
  that has no coordinate, xarray's default index, the positions from 0; otherwise the
  attribute access raises.
\<close>

definition axis_data :: "'d darray \<Rightarrow> string \<Rightarrow> error + cval list" where
  "axis_data arr name =
     (case coords arr name of
        Some vs \<Rightarrow> Inr vs
      | None \<Rightarrow>
          (case sizes arr name of
             Some n \<Rightarrow> Inr (map (\<lambda>i. CInt (int i)) [0..<n])
           | None \<Rightarrow> Inl (AttributeError name)))"

text \<open>\<^verbatim>\<open>arr.time.data\<close>\<close>

definition time_data :: "'d darray \<Rightarrow> error + cval list" where
  "time_data arr = axis_data arr ''time''"

section \<open>The aligner: \<^verbatim>\<open>shift_arrays\<close>\<close>

subsection \<open>The xarray operations it calls\<close>

text \<open>
  Along the time axis the payload is a list with one entry for each time label;
  \<open>None\<close> is a missing value (NaN).

  \<^verbatim>\<open>arr.shift(time=k)\<close> moves the data by \<open>k\<close> positions and leaves the coordinates in
  place; the vacated positions are filled with NaN.
\<close>

definition shift_list :: "int \<Rightarrow> 'v option list \<Rightarrow> 'v option list" where
  "shift_list k xs =
     (let n = length xs in
      if 0 \<le> k then replicate (min (nat k) n) None @ take (n - nat k) xs
      else drop (nat (- k)) xs @ replicate (min (nat (- k)) n) None)"

definition xr_shift :: "int \<Rightarrow> ('v option list) darray \<Rightarrow> ('v option list) darray" where
  "xr_shift k arr = arr\<lparr>data := shift_list k (data arr)\<rparr>"

text \<open>\<^verbatim>\<open>arr.dropna("time")\<close> drops the time labels whose value is missing.\<close>

definition dropna_time :: "('v option list) darray \<Rightarrow> ('v option list) darray" where
  "dropna_time arr =
     (let kept = filter (\<lambda>v. v \<noteq> None) (data arr);
          arr' = set_size ''time'' (length kept) arr
      in case coords arr ''time'' of
           None \<Rightarrow> arr'\<lparr>data := kept\<rparr>
         | Some ts \<Rightarrow>
             arr'\<lparr>coords := (coords arr)(''time'' \<mapsto>
                     map fst (filter (\<lambda>(t, v). v \<noteq> None) (zip ts (data arr)))),
                  data := kept\<rparr>)"

text \<open>
  \<^verbatim>\<open>xr.align(*array)\<close> with its default inner join, on the time axis. The arrays that
  carry a time coordinate have an index; an array with a time axis and no coordinate is
  unindexed along it.

  When all indexes are equal, and equal in length to every unindexed time axis, the
  joined index is that index and no array is reindexed. Otherwise the joined index is
  the intersection of the indexes (pandas: the distinct labels of the first index, in
  its order, that occur in every other index). An unindexed time axis must have the
  length of the joined index, and all unindexed time axes the same length. When arrays
  are reindexed, an index with duplicate labels cannot be. An unindexed array is given
  the joined index as its time coordinate.
\<close>

fun unique :: "'a list \<Rightarrow> 'a list" where
  "unique [] = []"
| "unique (x # xs) = x # unique (filter (\<lambda>y. y \<noteq> x) xs)"

definition intersection :: "'a list \<Rightarrow> 'a list \<Rightarrow> 'a list" where
  "intersection xs ys = filter (\<lambda>x. x \<in> set ys) (unique xs)"

definition time_indexes :: "'d darray list \<Rightarrow> cval list list" where
  "time_indexes arrs = List.map_filter (\<lambda>a. coords a ''time'') arrs"

definition unindexed_sizes :: "'d darray list \<Rightarrow> nat list" where
  "unindexed_sizes arrs =
     List.map_filter
       (\<lambda>a. case coords a ''time'' of None \<Rightarrow> sizes a ''time'' | Some _ \<Rightarrow> None) arrs"

definition reindex_time ::
  "bool \<Rightarrow> cval list \<Rightarrow> ('v option list) darray \<Rightarrow> ('v option list) darray" where
  "reindex_time need joined arr =
     (case coords arr ''time'' of
        None \<Rightarrow>
          (case sizes arr ''time'' of
             None \<Rightarrow> arr
           | Some _ \<Rightarrow> arr\<lparr>coords := (coords arr)(''time'' \<mapsto> joined)\<rparr>)
      | Some ts \<Rightarrow>
          if need
          then (set_size ''time'' (length joined) arr)
                 \<lparr>coords := (coords arr)(''time'' \<mapsto> joined),
                  data := map (\<lambda>l. case map_of (zip ts (data arr)) l of
                                      None \<Rightarrow> None
                                    | Some v \<Rightarrow> v) joined\<rparr>
          else arr)"

definition xr_align :: "('v option list) darray list \<Rightarrow> error + ('v option list) darray list" where
  "xr_align arrs =
     (case time_indexes arrs of
        [] \<Rightarrow>
          (case unindexed_sizes arrs of
             [] \<Rightarrow> Inr arrs
           | n # ns \<Rightarrow>
               if \<exists>m \<in> set ns. m \<noteq> n
               then Inl (ValueError ''cannot reindex or align: conflicting dimension sizes'')
               else Inr arrs)
      | i # rest \<Rightarrow>
          (let need = ((\<exists>j \<in> set rest. j \<noteq> i) \<or>
                       (\<exists>n \<in> set (unindexed_sizes arrs). n \<noteq> length i));
               joined = (if need then foldl intersection i rest else i)
           in if \<exists>n \<in> set (unindexed_sizes arrs). n \<noteq> length joined
              then Inl (ValueError ''cannot reindex or align: conflicting dimension sizes'')
              else if need \<and> (\<exists>j \<in> set (i # rest). \<not> distinct j)
              then Inl (ValueError ''cannot reindex or align: duplicate index values'')
              else Inr (map (reindex_time need joined) arrs)))"

subsection \<open>The function\<close>

text \<open>
  The \<^verbatim>\<open>match\<close> statement: the shift of an ensemble identifier, and what is printed.
\<close>

definition ens_shift :: "string \<Rightarrow> bool \<Rightarrow> int \<times> out_line list" where
  "ens_shift case_0 daily =
     (if case_0 = ''ens1'' then (0, [])
      else if case_0 = ''ens2'' then (if daily then 89 else 3, [])
      else if case_0 = ''ens3'' then (if daily then 181 else 6, [])
      else if case_0 = ''ens4'' then (if daily then 273 else 9, [])
      else if case_0 = ''ens5'' then (if daily then 365 else 12, [])
      else (0, [DontKnowHowToShift]))"

text \<open>\<^verbatim>\<open>arr.attrs["ensemble"] if ens is None else ens\<close>\<close>

definition case_0_of :: "string option \<Rightarrow> 'd darray \<Rightarrow> error + string" where
  "case_0_of ens arr =
     (case ens of
        Some e \<Rightarrow> Inr e
      | None \<Rightarrow>
          (case attrs arr ''ensemble'' of
             None \<Rightarrow> Inl (KeyError ''ensemble'')
           | Some e \<Rightarrow> Inr e))"

text \<open>
  The body of the loop, for one array: the lines printed, and the shifted array or
  the exception that ends the call.
\<close>

definition shift_one ::
  "string option \<Rightarrow> bool \<Rightarrow> int \<Rightarrow> ('v option list) darray
     \<Rightarrow> out_line list \<times> (error + ('v option list) darray)" where
  "shift_one ens daily custom arr =
     (case case_0_of ens arr of
        Inl e \<Rightarrow> ([], Inl e)
      | Inr case_0 \<Rightarrow>
          (let (shift0, out) = ens_shift case_0 daily;
               shift = (if custom = 0 then shift0 else custom)
           in case time_data arr of
                Inl e \<Rightarrow> (out, Inl e)
              | Inr [] \<Rightarrow> (out, Inl IndexError)
              | Inr (t0 # _) \<Rightarrow>
                  if is_float t0 then (out, Inr (dropna_time (xr_shift (- shift) arr)))
                  else (out, Inr (xr_shift (- shift) arr))))"

fun shift_loop ::
  "string option \<Rightarrow> bool \<Rightarrow> int \<Rightarrow> ('v option list) darray list
     \<Rightarrow> out_line list \<times> (error + ('v option list) darray list)" where
  "shift_loop ens daily custom [] = ([], Inr [])"
| "shift_loop ens daily custom (arr # rest) =
     (case shift_one ens daily custom arr of
        (out, Inl e) \<Rightarrow> (out, Inl e)
      | (out, Inr arr') \<Rightarrow>
          (case shift_loop ens daily custom rest of
             (out', Inl e) \<Rightarrow> (out @ out', Inl e)
           | (out', Inr rest') \<Rightarrow> (out @ out', Inr (arr' # rest'))))"

definition shift_arrays ::
  "('v option list) darray list \<Rightarrow> real \<Rightarrow> string option \<Rightarrow> bool \<Rightarrow> int
     \<Rightarrow> out_line list \<times> (error + ('v option list) darray list)" where
  "shift_arrays arrays weighted_ends ens daily custom =
     (if weighted_ends < 0 \<or> weighted_ends > 1
      then ([], Inl (ValueError ''weighted_ends must be between 0 and 1''))
      else case shift_loop ens daily custom arrays of
             (out, Inl e) \<Rightarrow> (out, Inl e)
           | (out, Inr shifted) \<Rightarrow> (out, xr_align shifted))"

subsection \<open>The shift as the specification states it\<close>

text \<open>
  These two definitions follow the words of the specification, not the code; the code
  is compared with them. The table of the specification: identifier 1 gives 0,
  identifier 2 gives 89 days or 3 months, identifier 3 gives 181 or 6, identifier 4
  gives 273 or 9, identifier 5 gives 365 or 12, and an unrecognised identifier gives 0.
\<close>

definition spec_table :: "string \<Rightarrow> bool \<Rightarrow> nat" where
  "spec_table k daily =
     (if k = ''ens1'' then 0
      else if k = ''ens2'' then (if daily then 89 else 3)
      else if k = ''ens3'' then (if daily then 181 else 6)
      else if k = ''ens4'' then (if daily then 273 else 9)
      else if k = ''ens5'' then (if daily then 365 else 12)
      else 0)"

definition recognised :: "string \<Rightarrow> bool" where
  "recognised k = (k \<in> {''ens1'', ''ens2'', ''ens3'', ''ens4'', ''ens5''})"

text \<open>
  The negative roll of the specification: the value at a position becomes the value
  that stood \<open>s\<close> positions later, and a position with no such value has none.
\<close>

definition spec_moved_earlier :: "nat \<Rightarrow> 'v option list \<Rightarrow> 'v option list" where
  "spec_moved_earlier s xs =
     map (\<lambda>i. if i + s < length xs then xs ! (i + s) else None) [0..<length xs]"

text \<open>
  \<^verbatim>\<open>isinstance(arr.time.data[0], float)\<close>, for an array whose time axis has a first
  value: whether the shifted array is trimmed.
\<close>

definition float_axis :: "'d darray \<Rightarrow> bool" where
  "float_axis arr = (case time_data arr of Inr (t0 # _) \<Rightarrow> is_float t0 | _ \<Rightarrow> False)"

text \<open>Whether \<^verbatim>\<open>arr.time\<close> exists: a time coordinate, or a time axis.\<close>

definition has_time :: "'d darray \<Rightarrow> bool" where
  "has_time a = (coords a ''time'' \<noteq> None \<or> sizes a ''time'' \<noteq> None)"

section \<open>The spatial reducer: \<^verbatim>\<open>mean_flatten\<close>\<close>

subsection \<open>The xarray operations it calls\<close>

text \<open>
  The function takes one array or a list of arrays and tells them apart with
  \<^verbatim>\<open>isinstance\<close>.
\<close>

datatype 'a arg = Single 'a | Many "'a list"

text \<open>
  \<^verbatim>\<open>arr.assign_attrs(d)\<close> returns a new array whose attribute dict is updated with \<open>d\<close>.
\<close>

definition assign_attrs :: "'d darray \<Rightarrow> (string \<rightharpoonup> string) \<Rightarrow> 'd darray" where
  "assign_attrs arr d = arr\<lparr>attrs := attrs arr ++ d\<rparr>"

text \<open>
  \<^verbatim>\<open>arr.mean(dim=ds)\<close>. The averaging of the payload is numpy's and is a parameter
  \<open>red\<close> of the model. A name in \<open>ds\<close> that is no axis of the array is an error. The
  result has the remaining axes and their coordinates. It keeps the attributes only
  under xarray's option \<^verbatim>\<open>keep_attrs\<close>, the parameter \<open>keep\<close>, which xarray sets to
  false for reductions unless the user says otherwise.
\<close>

definition xr_mean ::
  "bool \<Rightarrow> (string list \<Rightarrow> 'd \<Rightarrow> 'd) \<Rightarrow> string list \<Rightarrow> 'd darray \<Rightarrow> error + 'd darray" where
  "xr_mean keep red ds arr =
     (if \<exists>d \<in> set ds. d \<notin> set (dims arr)
      then Inl (ValueError ''Dimensions not found in data dimensions'')
      else Inr \<lparr>dims = filter (\<lambda>d. d \<notin> set ds) (dims arr),
                shape = map snd (filter (\<lambda>(d, n). d \<notin> set ds) (zip (dims arr) (shape arr))),
                coords = (\<lambda>k. if k \<in> set ds then None else coords arr k),
                attrs = (if keep then attrs arr else Map.empty),
                data = red ds (data arr)\<rparr>)"

text \<open>\<^verbatim>\<open>np.cos(np.deg2rad(lats))\<close>, defined on numbers.\<close>

fun number_of :: "cval \<Rightarrow> real option" where
  "number_of (CFloat x) = Some x"
| "number_of (CInt i) = Some (real_of_int i)"
| "number_of _ = None"

definition cos_weights :: "cval list \<Rightarrow> error + real list" where
  "cos_weights lats =
     (if list_all (\<lambda>c. number_of c \<noteq> None) lats
      then Inr (map (\<lambda>x. cos (x * pi / 180)) (List.map_filter number_of lats))
      else Inl (TypeError ''ufunc deg2rad not supported for the input types''))"

text \<open>
  \<^verbatim>\<open>_latitude_mean\<close>: \<^verbatim>\<open>getattr(arr, lat)\<close> reads the latitude coordinate (the default
  index of the latitude axis when it has none), and
  \<^verbatim>\<open>arr.weighted(weights).mean(lat)\<close> is the weighted reduction over that axis, whose
  numerics are the parameter \<open>wred\<close>.
\<close>

definition latitude_mean ::
  "bool \<Rightarrow> (real list \<Rightarrow> string \<Rightarrow> 'd \<Rightarrow> 'd) \<Rightarrow> 'd darray \<Rightarrow> string \<Rightarrow> error + 'd darray" where
  "latitude_mean keep wred arr lat =
     (case axis_data arr lat of
        Inl e \<Rightarrow> Inl e
      | Inr lats \<Rightarrow>
          (case cos_weights lats of
             Inl e \<Rightarrow> Inl e
           | Inr weights \<Rightarrow>
               if lat \<notin> set (dims arr)
               then Inl (ValueError ''Dimensions not found in data dimensions'')
               else Inr \<lparr>dims = filter (\<lambda>d. d \<noteq> lat) (dims arr),
                         shape = map snd (filter (\<lambda>(d, n). d \<noteq> lat) (zip (dims arr) (shape arr))),
                         coords = (coords arr)(lat := None),
                         attrs = (if keep then attrs arr else Map.empty),
                         data = wred weights lat (data arr)\<rparr>))"

subsection \<open>The function\<close>

text \<open>The latitude step that both paths share: \<^verbatim>\<open>tmp.assign_attrs(arr.attrs)\<close>.\<close>

definition lat_step ::
  "bool \<Rightarrow> (real list \<Rightarrow> string \<Rightarrow> 'd \<Rightarrow> 'd) \<Rightarrow> bool \<Rightarrow> string \<Rightarrow> 'd darray \<Rightarrow> error + 'd darray" where
  "lat_step keep wred include_lat lat arr =
     (if include_lat
      then (case latitude_mean keep wred arr lat of
              Inl e \<Rightarrow> Inl e
            | Inr tmp \<Rightarrow> Inr (assign_attrs tmp (attrs arr)))
      else Inr arr)"

text \<open>
  The single-array path. After \<^verbatim>\<open>arrays = arrays.mean(dim=dims)\<close> the name
  \<^verbatim>\<open>arrays\<close> is the reduced array, so \<^verbatim>\<open>arrays.assign_attrs(arrays.attrs)\<close> assigns the
  reduced array its own attributes.
\<close>

definition mean_single ::
  "bool \<Rightarrow> (string list \<Rightarrow> 'd \<Rightarrow> 'd) \<Rightarrow> (real list \<Rightarrow> string \<Rightarrow> 'd \<Rightarrow> 'd)
     \<Rightarrow> bool \<Rightarrow> string list \<Rightarrow> string \<Rightarrow> 'd darray \<Rightarrow> error + 'd darray" where
  "mean_single keep red wred include_lat ds lat arrays =
     (case lat_step keep wred include_lat lat arrays of
        Inl e \<Rightarrow> Inl e
      | Inr arrays1 \<Rightarrow>
          (case xr_mean keep red ds arrays1 of
             Inl e \<Rightarrow> Inl e
           | Inr arrays2 \<Rightarrow> Inr (assign_attrs arrays2 (attrs arrays2))))"

text \<open>
  The body of the loop of the list path: \<^verbatim>\<open>array[i] = arr_.mean(dim=dims)\<close>, then
  \<^verbatim>\<open>array[i].assign_attrs(arr_.attrs)\<close>.
\<close>

definition mean_item ::
  "bool \<Rightarrow> (string list \<Rightarrow> 'd \<Rightarrow> 'd) \<Rightarrow> (real list \<Rightarrow> string \<Rightarrow> 'd \<Rightarrow> 'd)
     \<Rightarrow> bool \<Rightarrow> string list \<Rightarrow> string \<Rightarrow> 'd darray \<Rightarrow> error + 'd darray" where
  "mean_item keep red wred include_lat ds lat arr =
     (case lat_step keep wred include_lat lat arr of
        Inl e \<Rightarrow> Inl e
      | Inr arr_ \<Rightarrow>
          (case xr_mean keep red ds arr_ of
             Inl e \<Rightarrow> Inl e
           | Inr m \<Rightarrow> Inr (assign_attrs m (attrs arr_))))"

fun mean_loop ::
  "bool \<Rightarrow> (string list \<Rightarrow> 'd \<Rightarrow> 'd) \<Rightarrow> (real list \<Rightarrow> string \<Rightarrow> 'd \<Rightarrow> 'd)
     \<Rightarrow> bool \<Rightarrow> string list \<Rightarrow> string \<Rightarrow> 'd darray list \<Rightarrow> error + 'd darray list" where
  "mean_loop keep red wred include_lat ds lat [] = Inr []"
| "mean_loop keep red wred include_lat ds lat (arr # rest) =
     (case mean_item keep red wred include_lat ds lat arr of
        Inl e \<Rightarrow> Inl e
      | Inr m \<Rightarrow>
          (case mean_loop keep red wred include_lat ds lat rest of
             Inl e \<Rightarrow> Inl e
           | Inr ms \<Rightarrow> Inr (m # ms)))"

text \<open>
  \<^verbatim>\<open>mean_flatten\<close>. \<^verbatim>\<open>dims.remove(lat)\<close> deletes the first occurrence of \<open>lat\<close> from
  the list object that the caller passed, and raises the \<^verbatim>\<open>ValueError\<close> that the
  function catches when there is none. The second component of the result is the
  caller's list object after the call (\<open>None\<close> when the caller passed no list).
\<close>

definition mean_flatten ::
  "bool \<Rightarrow> (string list \<Rightarrow> 'd \<Rightarrow> 'd) \<Rightarrow> (real list \<Rightarrow> string \<Rightarrow> 'd \<Rightarrow> 'd)
     \<Rightarrow> 'd darray arg \<Rightarrow> string list option \<Rightarrow> string
     \<Rightarrow> (error + 'd darray arg) \<times> string list option" where
  "mean_flatten keep red wred arrays dims_arg lat =
     (let dims0 = (case dims_arg of None \<Rightarrow> [''lon'', ''time''] | Some ds \<Rightarrow> ds);
          include_lat = (lat \<in> set dims0);
          ds = remove1 lat dims0;
          caller_dims = map_option (remove1 lat) dims_arg
      in case arrays of
           Single a \<Rightarrow>
             (case mean_single keep red wred include_lat ds lat a of
                Inl e \<Rightarrow> (Inl e, caller_dims)
              | Inr r \<Rightarrow> (Inr (Single r), caller_dims))
         | Many as \<Rightarrow>
             (case mean_loop keep red wred include_lat ds lat as of
                Inl e \<Rightarrow> (Inl e, caller_dims)
              | Inr rs \<Rightarrow> (Inr (Many rs), caller_dims)))"

text \<open>Whether a call with the list \<open>ds\<close> asks for the latitude reduction.\<close>

definition requests_lat :: "string list \<Rightarrow> string \<Rightarrow> bool" where
  "requests_lat ds lat = (lat \<in> set ds)"

section \<open>The seasonality filter: \<^verbatim>\<open>remove_seasonality\<close>\<close>

subsection \<open>The store\<close>

text \<open>
  \<^verbatim>\<open>_remove_seasonality_fourier\<close> writes into the numpy buffer of its argument. The
  store holds the buffers; the payload of an array is the address of its buffer, so
  that two arrays may share one. \<^verbatim>\<open>arr.copy()\<close> is a deep copy: it allocates a buffer.
\<close>

type_synonym store = "real list list"

definition buffer :: "store \<Rightarrow> nat \<Rightarrow> real list" where
  "buffer h a = (if a < length h then h ! a else [])"

definition copy :: "store \<Rightarrow> nat darray \<Rightarrow> store \<times> nat darray" where
  "copy h arr = (h @ [buffer h (data arr)], arr\<lparr>data := length h\<rparr>)"

subsection \<open>The numpy and scipy operations it calls\<close>

text \<open>Indexing: \<open>elem\<close> for a position from the left, \<open>np_get\<close> for numpy's signed index.\<close>

definition elem :: "'a list \<Rightarrow> nat \<Rightarrow> error + 'a" where
  "elem xs i = (if i < length xs then Inr (xs ! i) else Inl IndexError)"

definition np_get :: "'a list \<Rightarrow> int \<Rightarrow> error + 'a" where
  "np_get xs i =
     (let n = int (length xs); j = (if i < 0 then n + i else i)
      in if 0 \<le> j \<and> j < n then Inr (xs ! nat j) else Inl IndexError)"

text \<open>
  \<^verbatim>\<open>scipy.fft.rfft\<close>: the one-sided discrete Fourier transform of a real series of
  length \<open>n\<close>, with \<open>n div 2 + 1\<close> bins; an empty series is refused.
\<close>

definition rfft :: "real list \<Rightarrow> error + complex list" where
  "rfft xs =
     (let n = length xs in
      if n = 0 then Inl (ValueError ''invalid number of data points'')
      else Inr (map (\<lambda>k. \<Sum>t\<leftarrow>[0..<n].
                     of_real (xs ! t) * cis (- (2 * pi * real k * real t / real n)))
                  [0..<n div 2 + 1]))"

text \<open>
  \<^verbatim>\<open>scipy.fft.irfft\<close> without a length argument: from \<open>m\<close> bins it returns a real series
  of length \<open>2 * (m - 1)\<close>, and refuses a length of zero. The imaginary parts of the
  first and the last bin do not enter.
\<close>

definition irfft :: "complex list \<Rightarrow> error + real list" where
  "irfft ys =
     (let m = length ys; n = 2 * (m - 1) in
      if n = 0 then Inl (ValueError ''invalid number of data points'')
      else Inr (map (\<lambda>t. (Re (ys ! 0)
                         + (\<Sum>k\<leftarrow>[1..<m - 1].
                              2 * Re (ys ! k * cis (2 * pi * real k * real t / real n)))
                         + Re (ys ! (m - 1)) * (- 1) ^ t) / real n)
                  [0..<n]))"

text \<open>
  The sampling interval. From a float axis it is a numpy float, from a date axis a
  Python float: the difference shows when \<^verbatim>\<open>rfftfreq\<close> divides by it.
\<close>

datatype spacing = NpFloat real | PyFloat real

text \<open>
  \<^verbatim>\<open>scipy.fft.rfftfreq(n, d)\<close> is \<^verbatim>\<open>arange(n // 2 + 1) * (1.0 / (n * d))\<close>. With a zero
  Python float the division raises; with a zero numpy float it gives infinity and the
  bins are NaN or infinite, written \<open>None\<close>: such a bin lies in no band.
\<close>

definition rfftfreq :: "nat \<Rightarrow> spacing \<Rightarrow> error + real option list" where
  "rfftfreq n d =
     (case d of
        PyFloat x \<Rightarrow>
          if real n * x = 0 then Inl ZeroDivisionError
          else Inr (map (\<lambda>k. Some (real k * (1 / (real n * x)))) [0..<n div 2 + 1])
      | NpFloat x \<Rightarrow>
          if real n * x = 0 then Inr (replicate (n div 2 + 1) None)
          else Inr (map (\<lambda>k. Some (real k * (1 / (real n * x)))) [0..<n div 2 + 1]))"

text \<open>
  \<^verbatim>\<open>np.linspace(start, stop, num)\<close>: \<open>num\<close> evenly spaced values from \<open>start\<close>, the last
  one set to \<open>stop\<close> when there are two or more.
\<close>

definition linspace :: "complex \<Rightarrow> complex \<Rightarrow> nat \<Rightarrow> complex list" where
  "linspace start stop num =
     (if num = 0 then []
      else if num = 1 then [start]
      else (map (\<lambda>j. of_nat j * ((stop - start) / of_nat (num - 1)) + start) [0..<num])
             [num - 1 := stop])"

text \<open>\<^verbatim>\<open>ys[idx] = vs\<close>: the values \<open>vs\<close> written at the positions \<open>idx\<close>.\<close>

definition scatter :: "'a list \<Rightarrow> nat list \<Rightarrow> 'a list \<Rightarrow> 'a list" where
  "scatter ys idx vs = fold (\<lambda>(i, v) acc. acc[i := v]) (zip idx vs) ys"

subsection \<open>The function\<close>

fun float_sub :: "cval \<Rightarrow> cval \<Rightarrow> error + real" where
  "float_sub (CFloat b) (CFloat a) = Inr (b - a)"
| "float_sub _ _ = Inl (TypeError ''unsupported operand types'')"

fun date_sub :: "cval \<Rightarrow> cval \<Rightarrow> error + real" where
  "date_sub (CDate b) (CDate a) = Inr (b - a)"
| "date_sub _ _ = Inl (TypeError ''unsupported operand types'')"

text \<open>
  The \<^verbatim>\<open>if\<close>/\<^verbatim>\<open>elif\<close>/\<^verbatim>\<open>else\<close> on the type of \<^verbatim>\<open>arr.time.data[0]\<close>. The float branch reads
  positions 1 and 0, the date branch positions 11 and 10 (\<^verbatim>\<open>arr.time.data\<close> is always a
  numpy array, so the \<^verbatim>\<open>elif\<close> tests the element only).
\<close>

definition sample_spacing :: "cval list \<Rightarrow> error + spacing" where
  "sample_spacing ts =
     (case elem ts 0 of
        Inl e \<Rightarrow> Inl e
      | Inr t0 \<Rightarrow>
          if is_float t0 then
            (case elem ts 1 of
               Inl e \<Rightarrow> Inl e
             | Inr t1 \<Rightarrow>
                 (case float_sub t1 t0 of
                    Inl e \<Rightarrow> Inl e
                  | Inr d \<Rightarrow> Inr (NpFloat d)))
          else if is_date t0 then
            (case elem ts 11 of
               Inl e \<Rightarrow> Inl e
             | Inr t11 \<Rightarrow>
                 (case elem ts 10 of
                    Inl e \<Rightarrow> Inl e
                  | Inr t10 \<Rightarrow>
                      (case date_sub t11 t10 of
                         Inl e \<Rightarrow> Inl e
                       | Inr secs \<Rightarrow> Inr (PyFloat (secs / (3600 * 24 * 365))))))
          else Inl (TypeError ''I cannot handle time arrays''))"

text \<open>
  \<^verbatim>\<open>idx = np.argwhere((xf > freq - radius) & (xf < freq + radius))\<close>: the positions of
  the bins in the band.
\<close>

definition in_band :: "real \<Rightarrow> real \<Rightarrow> real option \<Rightarrow> bool" where
  "in_band freq radius x =
     (case x of None \<Rightarrow> False | Some f \<Rightarrow> f > freq - radius \<and> f < freq + radius)"

definition band_idx :: "real option list \<Rightarrow> real \<Rightarrow> real \<Rightarrow> nat list" where
  "band_idx xf freq radius = filter (\<lambda>i. in_band freq radius (xf ! i)) [0..<length xf]"

text \<open>
  \<^verbatim>\<open>any(idx)\<close>: Python's \<^verbatim>\<open>any\<close> over the rows of \<^verbatim>\<open>idx\<close>, each a one-element array that
  is true when its element is not zero.
\<close>

definition py_any :: "nat list \<Rightarrow> bool" where
  "py_any idx = (\<exists>i \<in> set idx. i \<noteq> 0)"

text \<open>
  The \<^verbatim>\<open>if any(idx)\<close> statement: the lines printed, and the cleaned spectrum or the
  exception. \<^verbatim>\<open>idx[0]\<close> and \<^verbatim>\<open>idx[-1]\<close> are read only when \<^verbatim>\<open>idx\<close> is not empty.
\<close>

definition filter_band ::
  "complex list \<Rightarrow> real option list \<Rightarrow> real \<Rightarrow> real \<Rightarrow> out_line list \<times> (error + complex list)" where
  "filter_band yf xf freq radius =
     (let idx = band_idx xf freq radius in
      if py_any idx then
        (case np_get yf (int (hd idx) - 1) of
           Inl e \<Rightarrow> ([], Inl e)
         | Inr lo \<Rightarrow>
             (case np_get yf (int (last idx) + 1) of
                Inl e \<Rightarrow> ([], Inl e)
              | Inr hi \<Rightarrow>
                  if \<exists>i \<in> set idx. length yf \<le> i then ([], Inl IndexError)
                  else ([], Inr (scatter yf idx (linspace lo hi (length idx))))))
      else ([NoFrequenciesRemoved, HintPlot], Inr yf))"

text \<open>
  \<^verbatim>\<open>arr.data[: len(new)] = new\<close>: the first \<open>length new\<close> values of the buffer are
  overwritten; a longer \<open>new\<close> cannot be broadcast into the slice.
\<close>

definition write_prefix :: "store \<Rightarrow> nat \<Rightarrow> real list \<Rightarrow> error + store" where
  "write_prefix h a new =
     (if length new \<le> length (buffer h a)
      then Inr (h[a := new @ drop (length new) (buffer h a)])
      else Inl (ValueError ''could not broadcast input array''))"

text \<open>
  \<^verbatim>\<open>_remove_seasonality_fourier\<close>: the lines printed, the store after the call, and the
  returned array or the exception. The returned \<^verbatim>\<open>arr[:]\<close> is a view on the buffer of
  \<^verbatim>\<open>arr\<close>. The plot has no part in the result.
\<close>

definition remove_seasonality_fourier ::
  "store \<Rightarrow> nat darray \<Rightarrow> real \<Rightarrow> real \<Rightarrow> bool
     \<Rightarrow> out_line list \<times> store \<times> (error + nat darray)" where
  "remove_seasonality_fourier h arr freq radius plot =
     (case time_data arr of
        Inl e \<Rightarrow> ([], h, Inl e)
      | Inr ts \<Rightarrow>
     (case sample_spacing ts of
        Inl e \<Rightarrow> ([], h, Inl e)
      | Inr sp \<Rightarrow>
     (case rfft (buffer h (data arr)) of
        Inl e \<Rightarrow> ([], h, Inl e)
      | Inr yf \<Rightarrow>
     (case rfftfreq (length ts) sp of
        Inl e \<Rightarrow> ([], h, Inl e)
      | Inr xf \<Rightarrow>
     (case filter_band yf xf freq radius of
        (out, Inl e) \<Rightarrow> (out, h, Inl e)
      | (out, Inr yf_clean) \<Rightarrow>
     (case irfft yf_clean of
        Inl e \<Rightarrow> (out, h, Inl e)
      | Inr new_f_clean \<Rightarrow>
     (case write_prefix h (data arr) new_f_clean of
        Inl e \<Rightarrow> (out, h, Inl e)
      | Inr h' \<Rightarrow> (out, h', Inr arr))))))))"

fun seasonality_loop ::
  "store \<Rightarrow> nat darray list \<Rightarrow> real \<Rightarrow> real \<Rightarrow> bool
     \<Rightarrow> out_line list \<times> store \<times> (error + nat darray list)" where
  "seasonality_loop h [] freq radius plot = ([], h, Inr [])"
| "seasonality_loop h (arr # rest) freq radius plot =
     (case remove_seasonality_fourier h arr freq radius plot of
        (out, h1, Inl e) \<Rightarrow> (out, h1, Inl e)
      | (out, h1, Inr arr') \<Rightarrow>
          (case seasonality_loop h1 rest freq radius plot of
             (out', h2, Inl e) \<Rightarrow> (out @ out', h2, Inl e)
           | (out', h2, Inr rest') \<Rightarrow> (out @ out', h2, Inr (arr' # rest'))))"

text \<open>
  \<^verbatim>\<open>remove_seasonality\<close>: a single array is copied before it is filtered, the arrays of
  a list are passed as they are.
\<close>

definition remove_seasonality ::
  "store \<Rightarrow> nat darray arg \<Rightarrow> real \<Rightarrow> real \<Rightarrow> bool
     \<Rightarrow> out_line list \<times> store \<times> (error + nat darray arg)" where
  "remove_seasonality h arrays freq radius plot =
     (case arrays of
        Single a \<Rightarrow>
          (let (h0, a0) = copy h a in
           case remove_seasonality_fourier h0 a0 freq radius plot of
             (out, h1, Inl e) \<Rightarrow> (out, h1, Inl e)
           | (out, h1, Inr r) \<Rightarrow> (out, h1, Inr (Single r)))
      | Many as \<Rightarrow>
          (case seasonality_loop h as freq radius plot of
             (out, h1, Inl e) \<Rightarrow> (out, h1, Inl e)
           | (out, h1, Inr rs) \<Rightarrow> (out, h1, Inr (Many rs))))"

section \<open>Example inputs\<close>

text \<open>
  Runs on a float time axis of five monthly steps, of the ensembles 1 and 2 and of an
  ensemble the table does not know, and what the aligner returns for them.
\<close>

definition run1 :: "(real option list) darray" where
  "run1 = \<lparr>dims = [''time''], shape = [5],
            coords = [''time'' \<mapsto> [CFloat 0, CFloat 1, CFloat 2, CFloat 3, CFloat 4]],
            attrs = [''ensemble'' \<mapsto> ''ens1''],
            data = [Some 10, Some 11, Some 12, Some 13, Some 14]\<rparr>"

definition run2 :: "(real option list) darray" where
  "run2 = \<lparr>dims = [''time''], shape = [5],
            coords = [''time'' \<mapsto> [CFloat 0, CFloat 1, CFloat 2, CFloat 3, CFloat 4]],
            attrs = [''ensemble'' \<mapsto> ''ens2''],
            data = [Some 20, Some 21, Some 22, Some 23, Some 24]\<rparr>"

definition run9 :: "(real option list) darray" where
  "run9 = \<lparr>dims = [''time''], shape = [5],
            coords = [''time'' \<mapsto> [CFloat 0, CFloat 1, CFloat 2, CFloat 3, CFloat 4]],
            attrs = [''ensemble'' \<mapsto> ''ens9''],
            data = [Some 90, Some 91, Some 92, Some 93, Some 94]\<rparr>"

definition run9_aligned :: "(real option list) darray" where
  "run9_aligned = \<lparr>dims = [''time''], shape = [2],
            coords = [''time'' \<mapsto> [CFloat 0, CFloat 1]],
            attrs = [''ensemble'' \<mapsto> ''ens9''],
            data = [Some 90, Some 91]\<rparr>"

definition run1_aligned :: "(real option list) darray" where
  "run1_aligned = \<lparr>dims = [''time''], shape = [2],
            coords = [''time'' \<mapsto> [CFloat 0, CFloat 1]],
            attrs = [''ensemble'' \<mapsto> ''ens1''],
            data = [Some 10, Some 11]\<rparr>"

definition run2_aligned :: "(real option list) darray" where
  "run2_aligned = \<lparr>dims = [''time''], shape = [2],
            coords = [''time'' \<mapsto> [CFloat 0, CFloat 1]],
            attrs = [''ensemble'' \<mapsto> ''ens2''],
            data = [Some 23, Some 24]\<rparr>"

text \<open>
  A field on a longitude and a time axis, with the ensemble attribute, and what the
  default call of \<^verbatim>\<open>mean_flatten\<close> makes of it; a profile on a latitude axis and its
  weighted mean. The payload lists the values; the kernels below average a payload over
  all of its axes.
\<close>

definition mean_all :: "string list \<Rightarrow> real list \<Rightarrow> real list" where
  "mean_all ds xs = (if ds = [] then xs else [sum_list xs / real (length xs)])"

definition wmean_all :: "real list \<Rightarrow> string \<Rightarrow> real list \<Rightarrow> real list" where
  "wmean_all ws d xs = [sum_list (map2 (*) ws xs) / sum_list ws]"

definition field1 :: "(real list) darray" where
  "field1 = \<lparr>dims = [''lon'', ''time''], shape = [2, 2],
              coords = [''lon'' \<mapsto> [CFloat 0, CFloat 180], ''time'' \<mapsto> [CFloat 0, CFloat 1]],
              attrs = [''ensemble'' \<mapsto> ''ens1''],
              data = [1, 2, 3, 4]\<rparr>"

definition profile :: "(real list) darray" where
  "profile = \<lparr>dims = [''lat''], shape = [3],
               coords = [''lat'' \<mapsto> [CFloat (- 60), CFloat 0, CFloat 60]],
               attrs = [''ensemble'' \<mapsto> ''ens1''],
               data = [1, 5, 1]\<rparr>"

definition profile_mean :: "(real list) darray" where
  "profile_mean = \<lparr>dims = [], shape = [], coords = Map.empty,
                    attrs = [''ensemble'' \<mapsto> ''ens1''], data = [3]\<rparr>"

definition field1_mean :: "(real list) darray" where
  "field1_mean = \<lparr>dims = [], shape = [], coords = Map.empty, attrs = Map.empty, data = [5 / 2]\<rparr>"

text \<open>
  A series of four yearly steps in a store of one buffer, a series of three steps with
  its spectrum, a store with three equal values for it and their spectrum, a series on a
  date axis of three months and one on an axis of another type.
\<close>

definition store4 :: store where
  "store4 = [[0, 1, 0, 0]]"

definition series4 :: "nat darray" where
  "series4 = \<lparr>dims = [''time''], shape = [4],
               coords = [''time'' \<mapsto> [CFloat 0, CFloat 1, CFloat 2, CFloat 3]],
               attrs = [''ensemble'' \<mapsto> ''ens1''],
               data = 0\<rparr>"

definition store3 :: store where
  "store3 = [[0, 4, 7]]"

definition series3 :: "nat darray" where
  "series3 = \<lparr>dims = [''time''], shape = [3],
               coords = [''time'' \<mapsto> [CFloat 0, CFloat 1, CFloat 2]],
               attrs = [''ensemble'' \<mapsto> ''ens1''],
               data = 0\<rparr>"

definition store_flat :: store where
  "store_flat = [[2, 2, 2]]"

definition spectrum_flat :: "complex list" where
  "spectrum_flat = [6, 2 + 2 * cis (- (2 * pi / 3)) + 2 * cis (- (4 * pi / 3))]"

definition spectrum3 :: "complex list" where
  "spectrum3 = [11, 4 * cis (- (2 * pi / 3)) + 7 * cis (- (4 * pi / 3))]"

definition dated3 :: "nat darray" where
  "dated3 = \<lparr>dims = [''time''], shape = [3],
              coords = [''time'' \<mapsto> [CDate 0, CDate 2678400, CDate 5097600]],
              attrs = [''ensemble'' \<mapsto> ''ens1''],
              data = 0\<rparr>"

definition stamped3 :: "nat darray" where
  "stamped3 = \<lparr>dims = [''time''], shape = [3],
                coords = [''time'' \<mapsto> [COther ''datetime64'', COther ''datetime64'',
                                          COther ''datetime64'']],
                attrs = [''ensemble'' \<mapsto> ''ens1''],
                data = 0\<rparr>"

section \<open>Properties of the aligner\<close>

subsection \<open>The default index\<close>

text \<open>An axis without a coordinate is read as its positions, which are integers.\<close>

lemma axis_data_default_index:
  "coords arr name = None \<Longrightarrow> sizes arr name = Some n \<Longrightarrow>
     axis_data arr name = Inr (map (\<lambda>i. CInt (int i)) [0..<n])"
  by (simp add: axis_data_def)

lemma spec_table_rows:
  "spec_table ''ens1'' daily = 0"
  "spec_table ''ens2'' daily = (if daily then 89 else 3)"
  "spec_table ''ens3'' daily = (if daily then 181 else 6)"
  "spec_table ''ens4'' daily = (if daily then 273 else 9)"
  "spec_table ''ens5'' daily = (if daily then 365 else 12)"
  "\<not> recognised k \<Longrightarrow> spec_table k daily = 0"
  by (simp_all add: spec_table_def recognised_def)

subsection \<open>Evaluation on the examples\<close>

lemma shift_one_run1: "shift_one None False 0 run1 = ([], Inr run1)"
  by (simp add: shift_one_def case_0_of_def run1_def ens_shift_def time_data_def axis_data_def
      xr_shift_def shift_list_def dropna_time_def set_size_def)

lemma shift_one_run2:
  "shift_one None False 0 run2 =
     ([], Inr (run2\<lparr>shape := [2], coords := [''time'' \<mapsto> [CFloat 0, CFloat 1]],
                   data := [Some 23, Some 24]\<rparr>))"
  by (simp add: shift_one_def case_0_of_def run2_def ens_shift_def time_data_def axis_data_def
      xr_shift_def shift_list_def dropna_time_def set_size_def)

lemma shift_one_run9:
  "shift_one None False 0 run9 = ([DontKnowHowToShift], Inr run9)"
  by (simp add: shift_one_def case_0_of_def run9_def ens_shift_def time_data_def axis_data_def
      xr_shift_def shift_list_def dropna_time_def set_size_def)

lemma align_runs:
  "xr_align [run1, run2\<lparr>shape := [2], coords := [''time'' \<mapsto> [CFloat 0, CFloat 1]],
                        data := [Some 23, Some 24]\<rparr>]
     = Inr [run1_aligned, run2_aligned]"
  by (simp add: xr_align_def time_indexes_def unindexed_sizes_def map_filter_simps run1_def
      run2_def run1_aligned_def run2_aligned_def intersection_def reindex_time_def set_size_def)

lemma align_runs9:
  "xr_align [run2\<lparr>shape := [2], coords := [''time'' \<mapsto> [CFloat 0, CFloat 1]],
                  data := [Some 23, Some 24]\<rparr>, run9]
     = Inr [run2_aligned, run9_aligned]"
  by (simp add: xr_align_def time_indexes_def unindexed_sizes_def map_filter_simps run9_def
      run2_def run9_aligned_def run2_aligned_def intersection_def reindex_time_def set_size_def)

lemma shift_arrays_runs:
  "0 \<le> w \<Longrightarrow> w \<le> 1 \<Longrightarrow>
     shift_arrays [run1, run2] w None False 0 = ([], Inr [run1_aligned, run2_aligned])"
  by (simp add: shift_arrays_def shift_one_run1 shift_one_run2 align_runs)

lemma shift_arrays_runs9:
  "shift_arrays [run2, run9] 1 None False 0
     = ([DontKnowHowToShift], Inr [run2_aligned, run9_aligned])"
  by (simp add: shift_arrays_def shift_one_run9 shift_one_run2 align_runs9)


subsection \<open>The shift table\<close>

lemma shift_list_moved: "shift_list (- int s) xs = spec_moved_earlier s xs"
proof (cases "s = 0")
  case True
  have "spec_moved_earlier 0 xs = xs"
    by (rule nth_equalityI) (auto simp: spec_moved_earlier_def)
  with True show ?thesis by (simp add: shift_list_def)
next
  case False
  have "drop s xs @ replicate (min s (length xs)) None = spec_moved_earlier s xs"
  proof (rule nth_equalityI)
    show "length (drop s xs @ replicate (min s (length xs)) None)
            = length (spec_moved_earlier s xs)"
      by (simp add: spec_moved_earlier_def)
  next
    fix i assume "i < length (drop s xs @ replicate (min s (length xs)) None)"
    then have i: "i < length xs" by simp
    show "(drop s xs @ replicate (min s (length xs)) None) ! i = spec_moved_earlier s xs ! i"
    proof (cases "i + s < length xs")
      case True
      then have "i < length xs - s" by simp
      with True i show ?thesis by (simp add: spec_moved_earlier_def nth_append add.commute)
    next
      case False
      with i have a: "i - (length xs - s) < min s (length xs)" and b: "\<not> i < length xs - s"
        by auto
      from a have "replicate (min s (length xs)) (None :: 'a option) ! (i - (length xs - s)) = None"
        by (rule nth_replicate)
      with False i b show ?thesis
        by (simp add: spec_moved_earlier_def nth_append del: nth_replicate)
    qed
  qed
  with False show ?thesis by (simp add: shift_list_def)
qed

lemma ens_shift_spec:
  "ens_shift k daily = (int (spec_table k daily), if recognised k then [] else [DontKnowHowToShift])"
  by (simp add: ens_shift_def spec_table_def recognised_def)

lemma shift_one_spec:
  assumes "shift_one ens daily 0 a = (out, Inr a')"
  shows "\<exists>k. case_0_of ens a = Inr k \<and>
             out = (if recognised k then [] else [DontKnowHowToShift]) \<and>
             a' = (if float_axis a then dropna_time else id)
                    (a\<lparr>data := spec_moved_earlier (spec_table k daily) (data a)\<rparr>)"
  using assms
  by (auto simp: shift_one_def ens_shift_spec float_axis_def xr_shift_def shift_list_moved
      split: sum.splits list.splits if_splits)

lemma shift_loop_spec:
  "shift_loop ens daily 0 arrays = (out, Inr xs) \<Longrightarrow>
     \<exists>ids. map (case_0_of ens) arrays = map Inr ids \<and>
           out = concat (map (\<lambda>k. if recognised k then [] else [DontKnowHowToShift]) ids) \<and>
           xs = map2 (\<lambda>k a. (if float_axis a then dropna_time else id)
                               (a\<lparr>data := spec_moved_earlier (spec_table k daily) (data a)\<rparr>))
                  ids arrays"
proof (induction arrays arbitrary: out xs)
  case Nil
  then show ?case by simp
next
  case (Cons a arrays)
  from Cons.prems obtain o1 a' o2 xs' where
    one: "shift_one ens daily 0 a = (o1, Inr a')" and
    rest: "shift_loop ens daily 0 arrays = (o2, Inr xs')" and
    out: "out = o1 @ o2" and xs: "xs = a' # xs'"
    by (auto split: prod.splits sum.splits)
  from shift_one_spec[OF one] obtain k where
    k: "case_0_of ens a = Inr k" and
    o1: "o1 = (if recognised k then [] else [DontKnowHowToShift])" and
    a': "a' = (if float_axis a then dropna_time else id)
                (a\<lparr>data := spec_moved_earlier (spec_table k daily) (data a)\<rparr>)"
    by blast
  from Cons.IH[OF rest] obtain ids where
    ids: "map (case_0_of ens) arrays = map Inr ids" and
    o2: "o2 = concat (map (\<lambda>k. if recognised k then [] else [DontKnowHowToShift]) ids)" and
    xs': "xs' = map2 (\<lambda>k a. (if float_axis a then dropna_time else id)
                               (a\<lparr>data := spec_moved_earlier (spec_table k daily) (data a)\<rparr>))
                  ids arrays"
    by blast
  show ?case
    by (rule exI[of _ "k # ids"]) (simp add: k ids out o1 o2 xs a' xs')
qed

lemma shift_one_returns:
  "(\<exists>a'. snd (shift_one ens daily custom a) = Inr a') \<longleftrightarrow>
     (\<exists>k. case_0_of ens a = Inr k) \<and> (\<exists>t0 ts. time_data a = Inr (t0 # ts))"
  by (auto simp: shift_one_def Let_def split: sum.splits list.splits prod.splits)

lemma shift_loop_returns:
  "(\<exists>xs. snd (shift_loop ens daily custom arrays) = Inr xs) \<longleftrightarrow>
     (\<forall>a \<in> set arrays. (\<exists>k. case_0_of ens a = Inr k) \<and> (\<exists>t0 ts. time_data a = Inr (t0 # ts)))"
proof (induction arrays)
  case Nil
  then show ?case by simp
next
  case (Cons a arrays)
  have "(\<exists>xs. snd (shift_loop ens daily custom (a # arrays)) = Inr xs) \<longleftrightarrow>
        (\<exists>a'. snd (shift_one ens daily custom a) = Inr a') \<and>
        (\<exists>xs. snd (shift_loop ens daily custom arrays) = Inr xs)"
    by (auto split: prod.splits sum.splits)
  with Cons.IH shift_one_returns[of ens daily custom a] show ?case by simp
qed


text \<open>
  C5. With no custom shift, whenever \<^verbatim>\<open>shift_arrays\<close> returns, every array had an
  ensemble identifier (the caller's override, or else its own attribute), one line was
  printed for each identifier that the table does not know, and the arrays returned are
  the alignment of the input arrays with the data of each moved earlier along the time
  axis by the entry of the specification's table for its identifier (0 for an identifier
  the table does not know), and trimmed of the missing values on a float axis. The loop
  over the arrays ends with an exception only for an array without an identifier or
  without a first time value, never because of what the identifier is.
\<close>

theorem shift_arrays_table:
  "(shift_arrays arrays w ens daily 0 = (out, Inr res) \<longrightarrow>
      (\<exists>ids. map (case_0_of ens) arrays = map Inr ids \<and>
             out = concat (map (\<lambda>k. if recognised k then [] else [DontKnowHowToShift]) ids) \<and>
             xr_align (map2 (\<lambda>k a. (if float_axis a then dropna_time else id)
                                 (a\<lparr>data := spec_moved_earlier (spec_table k daily) (data a)\<rparr>))
                        ids arrays) = Inr res)) \<and>
   ((\<exists>xs. snd (shift_loop ens daily custom arrays) = Inr xs) \<longleftrightarrow>
      (\<forall>a \<in> set arrays. (\<exists>k. case_0_of ens a = Inr k) \<and>
                          (\<exists>t0 ts. time_data a = Inr (t0 # ts))))"
proof -
  have "\<exists>ids. map (case_0_of ens) arrays = map Inr ids \<and>
             out = concat (map (\<lambda>k. if recognised k then [] else [DontKnowHowToShift]) ids) \<and>
             xr_align (map2 (\<lambda>k a. (if float_axis a then dropna_time else id)
                                 (a\<lparr>data := spec_moved_earlier (spec_table k daily) (data a)\<rparr>))
                        ids arrays) = Inr res"
    if r: "shift_arrays arrays w ens daily 0 = (out, Inr res)"
  proof -
    from r obtain xs where
      loop: "shift_loop ens daily 0 arrays = (out, Inr xs)" and al: "xr_align xs = Inr res"
      by (auto simp: shift_arrays_def split: if_splits prod.splits sum.splits)
    from shift_loop_spec[OF loop] al show ?thesis by auto
  qed
  with shift_loop_returns[of ens daily custom arrays] show ?thesis by blast
qed

theorem shift_arrays_table_witness:
  "shift_arrays [run2, run9] 1 None False 0
     = ([DontKnowHowToShift], Inr [run2_aligned, run9_aligned]) \<and>
   xr_align [dropna_time (run2\<lparr>data := spec_moved_earlier 3 (data run2)\<rparr>),
             dropna_time (run9\<lparr>data := spec_moved_earlier 0 (data run9)\<rparr>)]
     = Inr [run2_aligned, run9_aligned] \<and>
   (\<exists>xs. snd (shift_loop None False 0 [run2, run9]) = Inr xs)"
proof -
  have c2: "case_0_of None run2 = Inr ''ens2''" and c9: "case_0_of None run9 = Inr ''ens9''"
    by (simp_all add: case_0_of_def run2_def run9_def)
  have f: "float_axis run2" "float_axis run9"
    by (simp_all add: float_axis_def time_data_def axis_data_def run2_def run9_def)
  have t: "spec_table ''ens2'' False = 3" "spec_table ''ens9'' False = 0"
          "\<not> recognised ''ens9''" "recognised ''ens2''"
    by (simp_all add: spec_table_def recognised_def)
  note th = shift_arrays_table[of "[run2, run9]" 1 None False "[DontKnowHowToShift]"
         "[run2_aligned, run9_aligned]" 0]
  from th shift_arrays_runs9 obtain ids where
    ids: "map (case_0_of None) [run2, run9] = map Inr ids" and
    al: "xr_align (map2 (\<lambda>k a. (if float_axis a then dropna_time else id)
                                 (a\<lparr>data := spec_moved_earlier (spec_table k False) (data a)\<rparr>))
                        ids [run2, run9]) = Inr [run2_aligned, run9_aligned]"
    by blast
  have "\<forall>a \<in> set [run2, run9]. (\<exists>k. case_0_of None a = Inr k) \<and>
                                   (\<exists>t0 ts. time_data a = Inr (t0 # ts))"
    by (simp add: case_0_of_def time_data_def axis_data_def run2_def run9_def)
  with th have ret: "\<exists>xs. snd (shift_loop None False 0 [run2, run9]) = Inr xs" by blast
  from ids c2 c9 have "ids = [''ens2'', ''ens9'']" by (cases ids; cases "tl ids") auto
  with al f t ret shift_arrays_runs9 show ?thesis by simp
qed

subsection \<open>The weighting factor\<close>

lemma shift_loop_error:
  "shift_loop ens daily custom arrs = (out, Inl e) \<Longrightarrow>
     e = KeyError ''ensemble'' \<or> e = AttributeError ''time'' \<or> e = IndexError"
proof (induction arrs arbitrary: out)
  case Nil
  then show ?case by simp
next
  case (Cons a arrs)
  then show ?case
    by (auto simp: shift_one_def case_0_of_def time_data_def axis_data_def Let_def
        split: prod.splits sum.splits option.splits list.splits if_splits)
qed

lemma xr_align_error:
  "xr_align xs = Inl e \<Longrightarrow>
     e = ValueError ''cannot reindex or align: conflicting dimension sizes'' \<or>
     e = ValueError ''cannot reindex or align: duplicate index values''"
  by (auto simp: xr_align_def Let_def split: list.splits if_splits)


text \<open>
  C7. The call ends with the InvalidParameter condition exactly when the weighting
  factor is below 0 or above 1, and then nothing was printed and no array was looked
  at: the result is the same whatever the arrays are.
\<close>

theorem weighted_ends_check:
  "(snd (shift_arrays arrays w ens daily custom)
      = Inl (ValueError ''weighted_ends must be between 0 and 1'') \<longleftrightarrow> w < 0 \<or> w > 1) \<and>
   (w < 0 \<or> w > 1 \<longrightarrow>
      shift_arrays arrays w ens daily custom
        = ([], Inl (ValueError ''weighted_ends must be between 0 and 1'')))"
proof -
  have "snd (shift_arrays arrays w ens daily custom)
          \<noteq> Inl (ValueError ''weighted_ends must be between 0 and 1'')"
    if "\<not> (w < 0 \<or> w > 1)"
  proof (cases "shift_loop ens daily custom arrays")
    case (Pair out r)
    show ?thesis
    proof (cases r)
      case (Inl e)
      with Pair shift_loop_error[of ens daily custom arrays out e] that show ?thesis
        by (auto simp: shift_arrays_def)
    next
      case (Inr xs)
      with Pair xr_align_error[of xs] that show ?thesis
        by (auto simp: shift_arrays_def)
    qed
  qed
  then show ?thesis by (auto simp: shift_arrays_def)
qed


theorem weighted_ends_check_witness:
  "shift_arrays [run1, run2] (- 0.1) None False 0
     = ([], Inl (ValueError ''weighted_ends must be between 0 and 1'')) \<and>
   shift_arrays [run1, run2] 1.1 None False 0
     = ([], Inl (ValueError ''weighted_ends must be between 0 and 1'')) \<and>
   snd (shift_arrays [run1, run2] 0 None False 0)
     \<noteq> Inl (ValueError ''weighted_ends must be between 0 and 1'') \<and>
   snd (shift_arrays [run1, run2] 1 None False 0)
     \<noteq> Inl (ValueError ''weighted_ends must be between 0 and 1'') \<and>
   shift_arrays [run1, run2] 0 None False 0 = ([], Inr [run1_aligned, run2_aligned]) \<and>
   shift_arrays [run1, run2] 1 None False 0 = ([], Inr [run1_aligned, run2_aligned])"
  using weighted_ends_check[of "[run1, run2]" "- 0.1" None False 0]
        weighted_ends_check[of "[run1, run2]" "1.1" None False 0]
        weighted_ends_check[of "[run1, run2]" 0 None False 0]
        weighted_ends_check[of "[run1, run2]" 1 None False 0]
        shift_arrays_runs[of 0] shift_arrays_runs[of 1]
  by simp

text \<open>
  C8. Two weighting factors that pass the check give the same printed lines and the
  same result: the factor is not applied to the data.
\<close>

theorem weighted_ends_unused:
  assumes "0 \<le> a" "a \<le> 1" "0 \<le> b" "b \<le> 1"
  shows "shift_arrays arrays a ens daily custom = shift_arrays arrays b ens daily custom"
  using assms by (simp add: shift_arrays_def)

theorem weighted_ends_unused_witness:
  "(0::real) \<le> 0.25 \<and> (0.25::real) \<le> 1 \<and>
   shift_arrays [run1, run2] 0.25 None False 0 = shift_arrays [run1, run2] 1 None False 0 \<and>
   shift_arrays [run1, run2] 1 None False 0 = ([], Inr [run1_aligned, run2_aligned])"
  using weighted_ends_unused[of "0.25" 1 "[run1, run2]" None False 0] shift_arrays_runs[of 1]
  by simp

subsection \<open>Alignment\<close>

lemma sizes_set_size:
  "sizes (set_size name n arr) d = (if d = name then map_option (\<lambda>_. n) (sizes arr d) else sizes arr d)"
proof -
  have "map_of (zip ds (map (\<lambda>(d, m). if d = name then n else m) (zip ds sh))) d
          = (if d = name then map_option (\<lambda>_. n) (map_of (zip ds sh) d) else map_of (zip ds sh) d)"
    for ds :: "string list" and sh :: "nat list"
  proof (induction ds arbitrary: sh)
    case Nil
    then show ?case by simp
  next
    case (Cons x ds)
    then show ?case by (cases sh) auto
  qed
  then show ?thesis by (simp add: sizes_def set_size_def)
qed



lemma time_data_has_time: "time_data a = Inr ts \<Longrightarrow> has_time a"
  by (auto simp: time_data_def axis_data_def has_time_def split: option.splits)

lemma has_time_data: "has_time a \<Longrightarrow> \<exists>ts. time_data a = Inr ts"
  by (auto simp: time_data_def axis_data_def has_time_def split: option.splits)

lemma has_time_shift: "has_time (xr_shift k a) = has_time a"
  by (simp add: has_time_def xr_shift_def sizes_def)

lemma set_size_fields:
  "coords (set_size name n a) = coords a" "dims (set_size name n a) = dims a"
  "attrs (set_size name n a) = attrs a" "data (set_size name n a) = data a"
  by (simp_all add: set_size_def)

lemma sizes_updates:
  "sizes (a\<lparr>data := d\<rparr>) = sizes a" "sizes (a\<lparr>coords := c\<rparr>) = sizes a"
  by (simp_all add: sizes_def)

lemma has_time_dropna: "has_time a \<Longrightarrow> has_time (dropna_time a)"
  by (auto simp: has_time_def dropna_time_def Let_def sizes_set_size set_size_fields sizes_updates
      split: option.splits)

lemma shift_one_has_time:
  "shift_one ens daily custom arr = (out, Inr a') \<Longrightarrow> has_time a'"
  by (auto simp: shift_one_def Let_def has_time_shift
      dest!: time_data_has_time intro!: has_time_dropna
      split: prod.splits sum.splits list.splits if_splits)

lemma shift_loop_shape:
  "shift_loop ens daily custom arrs = (out, Inr xs) \<Longrightarrow>
     length xs = length arrs \<and> (\<forall>a \<in> set xs. has_time a)"
proof (induction arrs arbitrary: out xs)
  case Nil
  then show ?case by simp
next
  case (Cons a arrs)
  from Cons.prems obtain o1 a' o2 xs' where
    one: "shift_one ens daily custom a = (o1, Inr a')" and
    rest: "shift_loop ens daily custom arrs = (o2, Inr xs')" and
    xs: "xs = a' # xs'"
    by (auto split: prod.splits sum.splits)
  from Cons.IH[OF rest] shift_one_has_time[OF one] xs show ?case by simp
qed

lemma set_time_indexes:
  "set (time_indexes arrs) = {ts. \<exists>a \<in> set arrs. coords a ''time'' = Some ts}"
  by (induction arrs) (auto simp: time_indexes_def map_filter_simps split: option.splits)

lemma set_unindexed_sizes:
  "set (unindexed_sizes arrs)
     = {n. \<exists>a \<in> set arrs. coords a ''time'' = None \<and> sizes a ''time'' = Some n}"
  by (induction arrs) (auto simp: unindexed_sizes_def map_filter_simps split: option.splits)

lemma reindex_time_data:
  assumes "has_time a" and "need \<or> (\<forall>ts. coords a ''time'' = Some ts \<longrightarrow> ts = joined)"
  shows "time_data (reindex_time need joined a) = Inr joined"
  using assms
  by (auto simp: reindex_time_def has_time_def time_data_def axis_data_def set_size_fields
      split: option.splits)

lemma xr_align_shape:
  assumes "xr_align xs = Inr res" and "\<forall>a \<in> set xs. has_time a"
  shows "length res = length xs \<and> (\<exists>ts. \<forall>a \<in> set res. time_data a = Inr ts)"
proof (cases "time_indexes xs")
  case Nil
  have nc: "\<forall>a \<in> set xs. coords a ''time'' = None"
  proof
    fix a assume "a \<in> set xs"
    with Nil set_time_indexes[of xs] have "\<forall>ts. coords a ''time'' \<noteq> Some ts" by auto
    then show "coords a ''time'' = None" by (cases "coords a ''time''") auto
  qed
  show ?thesis
  proof (cases "unindexed_sizes xs")
    case Nil2: Nil
    with nc assms(2) have "xs = []"
      using set_unindexed_sizes[of xs] by (cases xs) (auto simp: has_time_def)
    with assms(1) Nil Nil2 show ?thesis by (simp add: xr_align_def)
  next
    case (Cons n ns)
    with Nil assms(1) have r: "res = xs" and eq: "\<forall>m \<in> set ns. m = n"
      by (auto simp: xr_align_def split: if_splits)
    have "\<forall>a \<in> set xs. time_data a = Inr (map (\<lambda>i. CInt (int i)) [0..<n])"
    proof
      fix a assume a: "a \<in> set xs"
      with nc assms(2) obtain m where m: "sizes a ''time'' = Some m" and c: "coords a ''time'' = None"
        by (auto simp: has_time_def)
      with a have "m \<in> set (unindexed_sizes xs)" by (auto simp: set_unindexed_sizes)
      with Cons eq have "m = n" by auto
      with m c show "time_data a = Inr (map (\<lambda>i. CInt (int i)) [0..<n])"
        by (simp add: time_data_def axis_data_def)
    qed
    with r show ?thesis by auto
  qed
next
  case (Cons i rest)
  define need where "need = ((\<exists>j \<in> set rest. j \<noteq> i) \<or>
                       (\<exists>n \<in> set (unindexed_sizes xs). n \<noteq> length i))"
  define joined where "joined = (if need then foldl intersection i rest else i)"
  from Cons assms(1) have r: "res = map (reindex_time need joined) xs"
    by (auto simp: xr_align_def Let_def need_def joined_def split: if_splits)
  have "time_data (reindex_time need joined a) = Inr joined" if a: "a \<in> set xs" for a
  proof (rule reindex_time_data)
    from a assms(2) show "has_time a" by simp
    show "need \<or> (\<forall>ts. coords a ''time'' = Some ts \<longrightarrow> ts = joined)"
    proof (cases need)
      case True
      then show ?thesis by simp
    next
      case False
      then have all: "\<forall>j \<in> set rest. j = i" and j: "joined = i"
        by (auto simp: need_def joined_def)
      have "ts = joined" if "coords a ''time'' = Some ts" for ts
      proof -
        from that a have "ts \<in> set (time_indexes xs)" by (auto simp: set_time_indexes)
        with Cons all j show ?thesis by auto
      qed
      then show ?thesis by simp
    qed
  qed
  with r show ?thesis by auto
qed


lemma shift_one_coords:
  "shift_one ens daily custom arr = (out, Inr a') \<Longrightarrow> coords arr ''time'' \<noteq> None \<Longrightarrow>
     coords a' ''time'' \<noteq> None"
  by (auto simp: shift_one_def Let_def xr_shift_def dropna_time_def set_size_fields
      split: prod.splits sum.splits list.splits if_splits option.splits)

lemma shift_loop_coords:
  "shift_loop ens daily custom arrs = (out, Inr xs) \<Longrightarrow>
     \<exists>a \<in> set arrs. coords a ''time'' \<noteq> None \<Longrightarrow> \<exists>a \<in> set xs. coords a ''time'' \<noteq> None"
proof (induction arrs arbitrary: out xs)
  case Nil
  then show ?case by simp
next
  case (Cons a arrs)
  from Cons.prems(1) obtain o1 a' o2 xs' where
    one: "shift_one ens daily custom a = (o1, Inr a')" and
    rest: "shift_loop ens daily custom arrs = (o2, Inr xs')" and
    xs: "xs = a' # xs'"
    by (auto split: prod.splits sum.splits)
  show ?case
  proof (cases "coords a ''time'' = None")
    case True
    with Cons.prems(2) have "\<exists>a \<in> set arrs. coords a ''time'' \<noteq> None" by auto
    from Cons.IH[OF rest this] xs show ?thesis by auto
  next
    case False
    with shift_one_coords[OF one] xs show ?thesis by auto
  qed
qed

lemma reindex_time_coords:
  assumes "has_time a" and "need \<or> (\<forall>ts. coords a ''time'' = Some ts \<longrightarrow> ts = joined)"
  shows "coords (reindex_time need joined a) ''time'' = Some joined"
  using assms
  by (auto simp: reindex_time_def has_time_def set_size_fields split: option.splits)

lemma xr_align_coords:
  assumes "xr_align xs = Inr res" and "\<forall>a \<in> set xs. has_time a"
    and "\<exists>a \<in> set xs. coords a ''time'' \<noteq> None"
  shows "\<exists>ts. \<forall>a \<in> set res. coords a ''time'' = Some ts"
proof (cases "time_indexes xs")
  case Nil
  with assms(3) set_time_indexes[of xs] show ?thesis by auto
next
  case (Cons i rest)
  define need where "need = ((\<exists>j \<in> set rest. j \<noteq> i) \<or>
                       (\<exists>n \<in> set (unindexed_sizes xs). n \<noteq> length i))"
  define joined where "joined = (if need then foldl intersection i rest else i)"
  from Cons assms(1) have r: "res = map (reindex_time need joined) xs"
    by (auto simp: xr_align_def Let_def need_def joined_def split: if_splits)
  have "coords (reindex_time need joined a) ''time'' = Some joined" if a: "a \<in> set xs" for a
  proof (rule reindex_time_coords)
    from a assms(2) show "has_time a" by simp
    show "need \<or> (\<forall>ts. coords a ''time'' = Some ts \<longrightarrow> ts = joined)"
    proof (cases need)
      case True
      then show ?thesis by simp
    next
      case False
      then have all: "\<forall>j \<in> set rest. j = i" and j: "joined = i"
        by (auto simp: need_def joined_def)
      have "ts = joined" if "coords a ''time'' = Some ts" for ts
      proof -
        from that a have "ts \<in> set (time_indexes xs)" by (auto simp: set_time_indexes)
        with Cons all j show ?thesis by auto
      qed
      then show ?thesis by simp
    qed
  qed
  with r show ?thesis by auto
qed


text \<open>
  C6. When \<^verbatim>\<open>shift_arrays\<close> returns, it returns as many arrays as it was given, and
  all of them carry one and the same sequence of time coordinates (\<^verbatim>\<open>arr.time.data\<close>);
  when an array of the batch has a time coordinate, all returned arrays have that one
  time coordinate. This holds for a batch of any size, so for one of two or more arrays.
\<close>

theorem shift_arrays_aligned:
  assumes "snd (shift_arrays arrays weighted_ends ens daily custom) = Inr res"
  shows "length res = length arrays \<and>
         (\<exists>ts. \<forall>a \<in> set res. time_data a = Inr ts) \<and>
         ((\<exists>a \<in> set arrays. coords a ''time'' \<noteq> None) \<longrightarrow>
            (\<exists>ts. \<forall>a \<in> set res. coords a ''time'' = Some ts))"
proof -
  from assms obtain out xs where
    loop: "shift_loop ens daily custom arrays = (out, Inr xs)" and al: "xr_align xs = Inr res"
    by (auto simp: shift_arrays_def split: if_splits prod.splits sum.splits)
  from shift_loop_shape[OF loop] have sh: "length xs = length arrays" "\<forall>a \<in> set xs. has_time a"
    by simp_all
  from xr_align_shape[OF al sh(2)] sh(1)
  have a: "length res = length arrays \<and> (\<exists>ts. \<forall>a \<in> set res. time_data a = Inr ts)" by simp
  have "\<exists>ts. \<forall>a \<in> set res. coords a ''time'' = Some ts"
    if "\<exists>a \<in> set arrays. coords a ''time'' \<noteq> None"
    using xr_align_coords[OF al sh(2) shift_loop_coords[OF loop that]] .
  with a show ?thesis by blast
qed

theorem shift_arrays_aligned_witness:
  "snd (shift_arrays [run1, run2] 1 None False 0) = Inr [run1_aligned, run2_aligned] \<and>
   length [run1_aligned, run2_aligned] = length [run1, run2] \<and>
   time_data run1_aligned = Inr [CFloat 0, CFloat 1] \<and>
   time_data run2_aligned = Inr [CFloat 0, CFloat 1] \<and>
   coords run1_aligned ''time'' = Some [CFloat 0, CFloat 1] \<and>
   coords run2_aligned ''time'' = Some [CFloat 0, CFloat 1] \<and>
   (\<exists>ts. \<forall>a \<in> set [run1_aligned, run2_aligned]. time_data a = Inr ts)"
proof -
  have ev: "snd (shift_arrays [run1, run2] 1 None False 0) = Inr [run1_aligned, run2_aligned]"
    by (simp add: shift_arrays_runs)
  have t: "time_data run1_aligned = Inr [CFloat 0, CFloat 1]"
          "time_data run2_aligned = Inr [CFloat 0, CFloat 1]"
          "coords run1_aligned ''time'' = Some [CFloat 0, CFloat 1]"
          "coords run2_aligned ''time'' = Some [CFloat 0, CFloat 1]"
    by (simp_all add: time_data_def axis_data_def run1_aligned_def run2_aligned_def)
  from shift_arrays_aligned[OF ev] ev t show ?thesis by simp
qed

section \<open>Properties of the spatial reducer\<close>

subsection \<open>Attributes\<close>

lemma map_add_self: "m ++ m = m"
  by (rule ext) (simp add: map_add_def split: option.splits)

lemma lat_step_attrs:
  "lat_step keep wred include_lat lat arr = Inr arr1 \<Longrightarrow> attrs arr1 = attrs arr"
  by (auto simp: lat_step_def latitude_mean_def assign_attrs_def map_add_self
      split: if_splits sum.splits option.splits)

lemma xr_mean_attrs:
  "xr_mean keep red ds arr = Inr m \<Longrightarrow> attrs m = (if keep then attrs arr else Map.empty)"
  by (auto simp: xr_mean_def split: if_splits)

lemma mean_item_attrs:
  "mean_item keep red wred include_lat ds lat arr = Inr m \<Longrightarrow> attrs m = attrs arr"
  by (auto simp: mean_item_def assign_attrs_def map_add_self dest!: lat_step_attrs xr_mean_attrs
      split: sum.splits)

lemma mean_loop_attrs:
  "mean_loop keep red wred include_lat ds lat arrs = Inr ms \<Longrightarrow> map attrs ms = map attrs arrs"
proof (induction arrs arbitrary: ms)
  case Nil
  then show ?case by simp
next
  case (Cons a arrs)
  then show ?case by (auto split: sum.splits dest: mean_item_attrs)
qed

text \<open>
  On the list path every returned array carries the attributes of its input array,
  with and without the latitude reduction and under either setting of \<^verbatim>\<open>keep_attrs\<close>.
\<close>

lemma mean_flatten_many_attrs:
  "fst (mean_flatten keep red wred (Many arrs) dims_arg lat) = Inr (Many ms) \<Longrightarrow>
     map attrs ms = map attrs arrs"
  by (auto simp: mean_flatten_def Let_def split: sum.splits dest: mean_loop_attrs)

lemma mean_single_attrs:
  "mean_single keep red wred include_lat ds lat a = Inr r \<Longrightarrow>
     attrs r = (if keep then attrs a else Map.empty)"
  by (auto simp: mean_single_def assign_attrs_def map_add_self dest!: lat_step_attrs xr_mean_attrs
      split: sum.splits)

text \<open>
  C1. On the single-array path the returned array carries the attributes of the input
  only when xarray's \<^verbatim>\<open>keep_attrs\<close> option is set. Under xarray's default the result has
  no attributes: the attributes are read from the array after the reduction has
  dropped them. The claim fails on this path.
\<close>

theorem mean_flatten_single_attrs:
  assumes "fst (mean_flatten keep red wred (Single a) dims_arg lat) = Inr (Single r)"
  shows "attrs r = (if keep then attrs a else Map.empty)"
  using assms
  by (auto simp: mean_flatten_def Let_def split: sum.splits dest: mean_single_attrs)

lemma field1_mean_flatten:
  "mean_flatten False mean_all wmean_all (Single field1) None ''lat''
     = (Inr (Single field1_mean), None)"
  apply (simp add: mean_flatten_def mean_single_def lat_step_def xr_mean_def field1_def
      field1_mean_def assign_attrs_def mean_all_def)
  apply (rule ext)
  apply simp
  done

theorem mean_flatten_single_attrs_witness:
  "fst (mean_flatten False mean_all wmean_all (Single field1) None ''lat'')
     = Inr (Single field1_mean) \<and>
   attrs field1_mean = Map.empty \<and>
   attrs field1 ''ensemble'' = Some ''ens1''"
proof -
  have ev: "fst (mean_flatten False mean_all wmean_all (Single field1) None ''lat'')
              = Inr (Single field1_mean)"
    by (simp add: field1_mean_flatten)
  from mean_flatten_single_attrs[OF ev] ev show ?thesis
    by (simp add: field1_def)
qed

subsection \<open>The caller's list of axes\<close>

lemma lat_step_dims:
  "lat_step keep wred True lat arr = Inr arr1 \<Longrightarrow> lat \<notin> set (dims arr1)"
  by (auto simp: lat_step_def latitude_mean_def assign_attrs_def
      split: if_splits sum.splits)

lemma xr_mean_names:
  "xr_mean keep red ds arr = Inr m \<Longrightarrow> set ds \<subseteq> set (dims arr)"
  by (auto simp: xr_mean_def split: if_splits)

lemma mean_single_names:
  "mean_single keep red wred True ds lat a = Inr r \<Longrightarrow> lat \<notin> set ds"
  by (auto simp: mean_single_def split: sum.splits dest!: lat_step_dims xr_mean_names)

lemma mean_item_names:
  "mean_item keep red wred True ds lat a = Inr r \<Longrightarrow> lat \<notin> set ds"
  by (auto simp: mean_item_def split: sum.splits dest!: lat_step_dims xr_mean_names)

lemma mean_flatten_returns_names:
  assumes "lat \<in> set ds" and "arrays \<noteq> Many []"
    and "fst (mean_flatten keep red wred arrays (Some ds) lat) = Inr r"
  shows "lat \<notin> set (remove1 lat ds)"
proof (cases arrays)
  case (Single a)
  with assms(1,3) show ?thesis
    by (auto simp: mean_flatten_def Let_def split: sum.splits dest: mean_single_names)
next
  case (Many as)
  with assms(2) obtain a rest where "as = a # rest" by (cases as) auto
  with Many assms(1,3) show ?thesis
    by (auto simp: mean_flatten_def Let_def split: sum.splits dest: mean_item_names)
qed

lemma cos_60_deg: "cos (60 * pi / 180) = 1 / 2"
proof -
  have "60 * pi / 180 = pi / 3" by simp
  then show ?thesis by (simp only: cos_60)
qed

lemma profile_weights:
  "cos_weights [CFloat (- 60), CFloat 0, CFloat 60] = Inr [1 / 2, 1, 1 / 2]"
proof -
  have "cos (- 60 * pi / 180) = cos (60 * pi / 180)"
    using cos_minus[of "60 * pi / 180"] by simp
  then show ?thesis
    using cos_60_deg by (simp add: cos_weights_def map_filter_simps)
qed

lemma profile_mean_flatten:
  "mean_flatten False mean_all wmean_all (Many [profile]) (Some [''lat'']) ''lat''
     = (Inr (Many [profile_mean]), Some [])"
  apply (simp add: mean_flatten_def mean_item_def lat_step_def latitude_mean_def axis_data_def
      xr_mean_def profile_def profile_mean_def assign_attrs_def mean_all_def wmean_all_def
      profile_weights)
  done


text \<open>
  C9. When the list passed as \<^verbatim>\<open>dims\<close> contains the latitude axis name, the call
  removes that name from the caller's list object, whatever the arrays are, and the list
  no longer asks for the latitude reduction. This holds for a list of distinct axis
  names (the set of axes of the specification), and for any list when the call is on at
  least one array and returns.
\<close>

theorem mean_flatten_removes_lat:
  assumes "lat \<in> set ds"
    and "distinct ds \<or>
         (arrays \<noteq> Many [] \<and> (\<exists>r. fst (mean_flatten keep red wred arrays (Some ds) lat) = Inr r))"
  shows "snd (mean_flatten keep red wred arrays (Some ds) lat) = Some (remove1 lat ds) \<and>
         remove1 lat ds \<noteq> ds \<and>
         \<not> requests_lat (remove1 lat ds) lat"
proof -
  have a: "snd (mean_flatten keep red wred arrays (Some ds) lat) = Some (remove1 lat ds)"
    by (cases arrays) (auto simp: mean_flatten_def Let_def split: sum.splits)
  from assms(1) have "length (remove1 lat ds) < length ds"
    by (simp add: length_remove1) (cases ds; auto)
  then have b: "remove1 lat ds \<noteq> ds" by auto
  from assms(2) have c: "lat \<notin> set (remove1 lat ds)"
  proof
    assume "distinct ds"
    then show ?thesis by simp
  next
    assume "arrays \<noteq> Many [] \<and>
            (\<exists>r. fst (mean_flatten keep red wred arrays (Some ds) lat) = Inr r)"
    with assms(1) show ?thesis by (auto dest: mean_flatten_returns_names)
  qed
  from a b c show ?thesis by (simp add: requests_lat_def)
qed


theorem mean_flatten_removes_lat_witness:
  "''lat'' \<in> set [''lat''] \<and> distinct [''lat''] \<and>
   mean_flatten False mean_all wmean_all (Many [profile]) (Some [''lat'']) ''lat''
     = (Inr (Many [profile_mean]), Some []) \<and>
   \<not> requests_lat [] ''lat''"
  using mean_flatten_removes_lat[of "''lat''" "[''lat'']" "Many [profile]" False mean_all wmean_all]
        profile_mean_flatten
  by simp

section \<open>Properties of the seasonality filter\<close>

subsection \<open>Lengths and errors of the steps\<close>

lemma length_rfft: "rfft xs = Inr ys \<Longrightarrow> length ys = length xs div 2 + 1 \<and> xs \<noteq> []"
  by (auto simp: rfft_def Let_def split: if_splits)

lemma length_irfft: "irfft ys = Inr xs \<Longrightarrow> length xs = 2 * (length ys - 1)"
  by (auto simp: irfft_def Let_def split: if_splits)

lemma length_scatter: "length (scatter ys idx vs) = length ys"
proof -
  have "length (fold (\<lambda>(i, v) acc. acc[i := v]) ps ys) = length ys" for ps :: "(nat \<times> 'a) list"
    by (induction ps arbitrary: ys) (auto split: prod.splits)
  then show ?thesis by (simp add: scatter_def)
qed

lemma filter_band_length:
  "filter_band yf xf freq radius = (out, Inr yc) \<Longrightarrow> length yc = length yf"
  by (auto simp: filter_band_def Let_def length_scatter split: if_splits sum.splits)

lemma filter_band_error:
  "filter_band yf xf freq radius = (out, Inl e) \<Longrightarrow> e = IndexError"
  by (auto simp: filter_band_def Let_def np_get_def split: if_splits sum.splits)

lemma fourier_steps:
  assumes "remove_seasonality_fourier h arr freq radius plot = (out, h', Inr res)"
  shows "\<exists>ts sp yf xf yc new.
           time_data arr = Inr ts \<and> sample_spacing ts = Inr sp \<and>
           rfft (buffer h (data arr)) = Inr yf \<and> rfftfreq (length ts) sp = Inr xf \<and>
           filter_band yf xf freq radius = (out, Inr yc) \<and> irfft yc = Inr new \<and>
           write_prefix h (data arr) new = Inr h' \<and> res = arr"
proof -
  note d = remove_seasonality_fourier_def
  obtain ts where ts: "time_data arr = Inr ts"
    using assms by (cases "time_data arr") (simp_all add: d)
  obtain sp where sp: "sample_spacing ts = Inr sp"
    using assms ts by (cases "sample_spacing ts") (simp_all add: d)
  obtain yf where yf: "rfft (buffer h (data arr)) = Inr yf"
    using assms ts sp by (cases "rfft (buffer h (data arr))") (simp_all add: d)
  obtain xf where xf: "rfftfreq (length ts) sp = Inr xf"
    using assms ts sp yf by (cases "rfftfreq (length ts) sp") (simp_all add: d)
  obtain o1 r1 where fb0: "filter_band yf xf freq radius = (o1, r1)"
    by (cases "filter_band yf xf freq radius") auto
  obtain yc where r1: "r1 = Inr yc" and o1: "o1 = out"
    using assms ts sp yf xf fb0
    by (cases r1; cases "irfft (projr r1)";
        cases "write_prefix h (data arr) (projr (irfft (projr r1)))")
       (simp_all add: d)
  obtain new where new: "irfft yc = Inr new"
    using assms ts sp yf xf fb0 r1 by (cases "irfft yc") (simp_all add: d)
  have wp: "write_prefix h (data arr) new = Inr h' \<and> res = arr"
    using assms ts sp yf xf fb0 r1 new
    by (cases "write_prefix h (data arr) new") (simp_all add: d)
  from ts sp yf xf fb0 r1 o1 new wp show ?thesis by blast
qed

subsection \<open>Evaluation on the examples\<close>

lemma upt_small: "[0..<4] = [0, 1, 2, 3]" "[0..<3] = [0, 1, 2]" "[0..<2] = [0, 1]" "[1..<2] = [1]"
  by (simp_all add: upt_rec)

lemma cis_minus_pi: "cis (- pi) = - 1"
  by (simp add: complex_eq_iff)

lemma cos_pi_3_2: "cos (pi * 3 / 2) = 0"
  using cos_3over2_pi by (simp add: mult.commute)

lemma sin_pi_3_2: "sin (pi * 3 / 2) = - 1"
  using sin_3over2_pi by (simp add: mult.commute)

lemma cos_240: "cos (4 * pi / 3) = - 1 / 2"
proof -
  have "4 * pi / 3 = pi / 3 + pi" by simp
  then have "cos (4 * pi / 3) = cos (pi / 3 + pi)" by simp
  also have "\<dots> = - cos (pi / 3)" by (rule cos_periodic_pi)
  finally show ?thesis by (simp add: cos_60)
qed

lemma spacing4: "sample_spacing [CFloat 0, CFloat 1, CFloat 2, CFloat 3] = Inr (NpFloat 1)"
  by (simp add: sample_spacing_def elem_def)

lemma rfft4: "rfft [0, 1, 0, 0] = Inr [1, - \<i>, - 1]"
  by (simp add: rfft_def upt_small cis_minus_pi)

lemma rfftfreq4:
  "rfftfreq (Suc (Suc (Suc (Suc 0)))) (NpFloat 1) = Inr [Some 0, Some (1 / 4), Some (1 / 2)]"
proof -
  have "rfftfreq 4 (NpFloat 1) = Inr [Some 0, Some (1 / 4), Some (1 / 2)]"
    by (simp add: rfftfreq_def upt_small)
  then show ?thesis by (simp add: eval_nat_numeral)
qed

lemma band4: "band_idx [Some 0, Some (1 / 4), Some (1 / 2)] (1 / 4) (1 / 10) = [1]"
  by (simp add: band_idx_def in_band_def upt_small)

lemma band4_zero: "band_idx [Some 0, Some (1 / 4), Some (1 / 2)] 0 (1 / 100) = [0]"
  by (simp add: band_idx_def in_band_def upt_small)

lemma filter_band4:
  "filter_band [1, - \<i>, - 1] [Some 0, Some (1 / 4), Some (1 / 2)] (1 / 4) (1 / 10)
     = ([], Inr [1, 1, - 1])"
  by (simp add: filter_band_def band4 py_any_def np_get_def linspace_def scatter_def)

lemma irfft4: "irfft [1, 1, - 1] = Inr [1 / 2, 1 / 2, - 1 / 2, 1 / 2]"
  by (simp add: irfft_def upt_small cos_pi_3_2)

lemma irfft4_back: "irfft [1, - \<i>, - 1] = Inr [0, 1, 0, 0]"
  by (simp add: irfft_def upt_small cos_pi_3_2 sin_pi_3_2)

lemma fourier4:
  "remove_seasonality_fourier store4 series4 (1 / 4) (1 / 10) False
     = ([], [[1 / 2, 1 / 2, - 1 / 2, 1 / 2]], Inr series4)"
  by (simp add: remove_seasonality_fourier_def time_data_def axis_data_def series4_def store4_def buffer_def
      spacing4 rfft4 rfftfreq4 filter_band4 irfft4 write_prefix_def)

text \<open>The single-array path on the same input leaves the caller's buffer as it was.\<close>

lemma remove_seasonality_single4:
  "remove_seasonality store4 (Single series4) (1 / 4) (1 / 10) False
     = ([], [[0, 1, 0, 0], [1 / 2, 1 / 2, - 1 / 2, 1 / 2]], Inr (Single (series4\<lparr>data := 1\<rparr>)))"
  by (simp add: remove_seasonality_def copy_def remove_seasonality_fourier_def time_data_def axis_data_def
      series4_def store4_def buffer_def spacing4 rfft4 rfftfreq4 filter_band4 irfft4
      write_prefix_def)

lemma rfft3: "rfft [0, 4, 7] = Inr spectrum3"
  by (simp add: rfft_def upt_small spectrum3_def)

lemma rfftfreq3: "rfftfreq (Suc (Suc (Suc 0))) (NpFloat 1) = Inr [Some 0, Some (1 / 3)]"
proof -
  have "rfftfreq 3 (NpFloat 1) = Inr [Some 0, Some (1 / 3)]"
    by (simp add: rfftfreq_def upt_small)
  then show ?thesis by (simp add: eval_nat_numeral)
qed

lemma filter_band3:
  "filter_band ys [Some 0, Some (1 / 3)] 1 (1 / 100) = ([NoFrequenciesRemoved, HintPlot], Inr ys)"
  by (simp add: filter_band_def band_idx_def in_band_def py_any_def upt_small)

lemma irfft3: "irfft spectrum3 = Inr [11 / 4, 33 / 4]"
  by (simp add: irfft_def upt_small spectrum3_def cos_120 cos_240)

lemma fourier3:
  "remove_seasonality_fourier store3 series3 1 (1 / 100) False
     = ([NoFrequenciesRemoved, HintPlot], [[11 / 4, 33 / 4, 7]], Inr series3)"
  by (simp add: remove_seasonality_fourier_def time_data_def axis_data_def series3_def store3_def buffer_def
      sample_spacing_def elem_def rfft3 rfftfreq3 filter_band3 irfft3 write_prefix_def)

lemma fourier4_zero:
  "remove_seasonality_fourier store4 series4 0 (1 / 100) False
     = ([NoFrequenciesRemoved, HintPlot], [[0, 1, 0, 0]], Inr series4)"
  by (simp add: remove_seasonality_fourier_def time_data_def axis_data_def series4_def store4_def buffer_def
      spacing4 rfft4 rfftfreq4 filter_band_def band4_zero py_any_def irfft4_back
      write_prefix_def)

subsection \<open>The band\<close>

lemma fold_update_other:
  "i \<notin> fst ` set ps \<Longrightarrow> fold (\<lambda>(i, v) acc. acc[i := v]) ps ys ! i = ys ! i"
  by (induction ps arbitrary: ys) (auto split: prod.splits)

lemma scatter_nth_other: "i \<notin> set idx \<Longrightarrow> scatter ys idx vs ! i = ys ! i"
  unfolding scatter_def by (rule fold_update_other) (auto dest: set_zip_leftD)

lemma scatter_nth_hit:
  "distinct idx \<Longrightarrow> length vs = length idx \<Longrightarrow> j < length idx \<Longrightarrow> idx ! j < length ys \<Longrightarrow>
     scatter ys idx vs ! (idx ! j) = vs ! j"
proof (induction idx arbitrary: vs ys j)
  case Nil
  then show ?case by simp
next
  case (Cons i idx)
  then obtain v vs' where vs: "vs = v # vs'" by (cases vs) auto
  have step: "scatter ys (i # idx) (v # vs') = scatter (ys[i := v]) idx vs'"
    by (simp add: scatter_def)
  show ?case
  proof (cases j)
    case 0
    with Cons.prems vs step scatter_nth_other[of i idx "ys[i := v]" vs'] show ?thesis by simp
  next
    case (Suc j')
    with Cons.prems vs have "scatter (ys[i := v]) idx vs' ! (idx ! j') = vs' ! j'"
      by (intro Cons.IH) auto
    with Suc vs step show ?thesis by simp
  qed
qed

lemma length_linspace: "length (linspace a b k) = k"
  by (simp add: linspace_def)

lemma linspace_nth:
  assumes "j < k"
  shows "linspace a b k ! j =
           (if k = 1 then a else a + of_nat j * ((b - a) / of_nat (k - 1)))"
proof (cases "k = 1")
  case True
  with assms show ?thesis by (simp add: linspace_def)
next
  case False
  with assms have k: "2 \<le> k" by simp
  show ?thesis
  proof (cases "j = k - 1")
    case True
    from k have "(of_nat (k - 1) :: complex) \<noteq> 0" by simp
    then have "a + of_nat (k - 1) * ((b - a) / of_nat (k - 1)) = b" by simp
    with True k False show ?thesis by (simp add: linspace_def)
  next
    case False
    with assms k show ?thesis by (simp add: linspace_def add.commute)
  qed
qed

lemma band_idx_sorted: "sorted (band_idx xf freq radius)" "distinct (band_idx xf freq radius)"
  by (simp_all add: band_idx_def sorted_wrt_filter)

lemma sorted_le_last: "sorted xs \<Longrightarrow> x \<in> set xs \<Longrightarrow> x \<le> last xs"
  by (induction xs) (auto split: if_splits)

text \<open>
  A band that holds neither the first nor the last bin: nothing is printed, the bins
  outside the band keep their values, and the \<open>j\<close>-th bin of the band gets the \<open>j\<close>-th
  of \<open>length idx\<close> evenly spaced values from the bin below the band to the bin above it,
  both ends included (the value of the bin below when the band holds one bin).
\<close>

lemma filter_band_interior:
  assumes idx: "band_idx xf freq radius = idx" and ne: "idx \<noteq> []"
    and lo: "0 < hd idx" and hi: "last idx + 1 < length yf"
  shows "\<exists>yc. filter_band yf xf freq radius = ([], Inr yc) \<and>
           length yc = length yf \<and>
           (\<forall>i. i \<notin> set idx \<longrightarrow> yc ! i = yf ! i) \<and>
           (\<forall>j < length idx. yc ! (idx ! j) =
              (if length idx = 1 then yf ! (hd idx - 1)
               else yf ! (hd idx - 1) +
                    of_nat j * ((yf ! (last idx + 1) - yf ! (hd idx - 1)) / of_nat (length idx - 1))))"
proof -
  from idx band_idx_sorted[of xf freq radius] have so: "sorted idx" and di: "distinct idx"
    by simp_all
  from ne lo have any: "py_any idx" by (auto simp: py_any_def intro!: bexI[of _ "hd idx"])
  from ne so hi have bound: "\<forall>i \<in> set idx. i < length yf"
    using sorted_le_last[of idx] by fastforce
  from ne bound have hd_lt: "hd idx < length yf" by simp
  from lo hd_lt have g1: "np_get yf (int (hd idx) - 1) = Inr (yf ! (hd idx - 1))"
    by (simp add: np_get_def Let_def nat_diff_distrib')
  from hi have g2: "np_get yf (int (last idx) + 1) = Inr (yf ! (last idx + 1))"
    by (simp add: np_get_def Let_def nat_add_distrib)
  define yc where
    "yc = scatter yf idx (linspace (yf ! (hd idx - 1)) (yf ! (last idx + 1)) (length idx))"
  from idx any g1 g2 bound have fb: "filter_band yf xf freq radius = ([], Inr yc)"
    by (auto simp: filter_band_def yc_def Let_def)
  have "yc ! (idx ! j) = linspace (yf ! (hd idx - 1)) (yf ! (last idx + 1)) (length idx) ! j"
    if "j < length idx" for j
    unfolding yc_def using di that bound
    by (intro scatter_nth_hit) (auto simp: length_linspace)
  then have hit: "\<forall>j < length idx. yc ! (idx ! j) =
              (if length idx = 1 then yf ! (hd idx - 1)
               else yf ! (hd idx - 1) +
                    of_nat j * ((yf ! (last idx + 1) - yf ! (hd idx - 1)) / of_nat (length idx - 1)))"
    by (simp add: linspace_nth)
  have other: "\<forall>i. i \<notin> set idx \<longrightarrow> yc ! i = yf ! i"
    by (simp add: yc_def scatter_nth_other)
  from fb hit other show ?thesis by (auto simp: yc_def length_scatter)
qed

text \<open>An empty band: the two lines are printed and the spectrum is returned as it is.\<close>

lemma filter_band_empty:
  "band_idx xf freq radius = [] \<Longrightarrow>
     filter_band yf xf freq radius = ([NoFrequenciesRemoved, HintPlot], Inr yf)"
  by (simp add: filter_band_def py_any_def)

text \<open>A band that reaches the last bin: the read of the bin above the band fails.\<close>

lemma filter_band_last_bin:
  assumes "py_any (band_idx xf freq radius)"
    and "length yf \<le> last (band_idx xf freq radius) + 1"
  shows "filter_band yf xf freq radius = ([], Inl IndexError)"
  using assms by (auto simp: filter_band_def np_get_def Let_def split: sum.splits)

text \<open>
  C2. The claim fails when bin 0 is the one bin of the band: \<^verbatim>\<open>any(idx)\<close> tests the
  positions for being non-zero, not \<^verbatim>\<open>idx\<close> for being non-empty, so the warning lines
  are printed and the spectrum is left as it is although a bin lies in the band.
\<close>

theorem band_of_bin_zero_is_skipped:
  assumes "band_idx xf freq radius = [0]"
  shows "filter_band yf xf freq radius = ([NoFrequenciesRemoved, HintPlot], Inr yf)"
  using assms by (simp add: filter_band_def py_any_def)

theorem band_of_bin_zero_is_skipped_witness:
  "band_idx [Some 0, Some (1 / 4), Some (1 / 2)] 0 (1 / 100) = [0] \<and>
   filter_band [1, - \<i>, - 1] [Some 0, Some (1 / 4), Some (1 / 2)] 0 (1 / 100)
     = ([NoFrequenciesRemoved, HintPlot], Inr [1, - \<i>, - 1]) \<and>
   remove_seasonality_fourier store4 series4 0 (1 / 100) False
     = ([NoFrequenciesRemoved, HintPlot], [[0, 1, 0, 0]], Inr series4)"
  using band_of_bin_zero_is_skipped[OF band4_zero, of "[1, - \<i>, - 1]"] band4_zero fourier4_zero
  by simp

subsection \<open>The inverse transform and the overwrite\<close>

lemma rfft_flat: "rfft [2, 2, 2] = Inr spectrum_flat"
  by (simp add: rfft_def upt_small spectrum_flat_def)

lemma irfft_flat: "irfft spectrum_flat = Inr [3, 3]"
  by (simp add: irfft_def upt_small spectrum_flat_def cos_120 cos_240)

text \<open>
  When \<^verbatim>\<open>_remove_seasonality_fourier\<close> returns for a series of length \<open>n\<close>, the inverse
  transform of the cleaned spectrum has length \<open>2 * (n div 2)\<close>, which is \<open>n\<close> for an
  even and \<open>n - 1\<close> for an odd \<open>n\<close>; it overwrites that many leading values of the
  buffer, the values after them stay, and the returned array has the axes, coordinates
  and attributes of the argument and views the same buffer.
\<close>

lemma fourier_result:
  assumes "remove_seasonality_fourier h arr freq radius plot = (out, h', Inr res)"
  shows "\<exists>yf xf yf_clean new.
           rfft (buffer h (data arr)) = Inr yf \<and>
           filter_band yf xf freq radius = (out, Inr yf_clean) \<and>
           irfft yf_clean = Inr new \<and>
           length new = 2 * (length (buffer h (data arr)) div 2) \<and>
           buffer h' (data res) = new @ drop (length new) (buffer h (data arr)) \<and>
           dims res = dims arr \<and> coords res = coords arr \<and> attrs res = attrs arr \<and>
           data res = data arr"
proof -
  from fourier_steps[OF assms] obtain ts sp yf xf yc new where
    yf: "rfft (buffer h (data arr)) = Inr yf" and
    fb: "filter_band yf xf freq radius = (out, Inr yc)" and
    new: "irfft yc = Inr new" and
    wp: "write_prefix h (data arr) new = Inr h'" and
    res: "res = arr"
    by blast
  from length_rfft[OF yf] filter_band_length[OF fb] length_irfft[OF new]
  have len: "length new = 2 * (length (buffer h (data arr)) div 2)"
    and ne: "buffer h (data arr) \<noteq> []" by simp_all
  from ne have a: "data arr < length h" by (auto simp: buffer_def split: if_splits)
  from wp a have "buffer h' (data arr) = new @ drop (length new) (buffer h (data arr))"
    by (auto simp: write_prefix_def buffer_def split: if_splits)
  with yf fb new len res show ?thesis by blast
qed

text \<open>
  C3. The claim fails on a series of odd length. \<^verbatim>\<open>irfft\<close> is called without the length
  of the series, so from the two bins of a series of three values it returns two
  values: the inverse transform is shorter than the series, the third value is not
  overwritten, and the two values written are not the filtered series. With no bin in
  the band and the warning printed, \<^verbatim>\<open>remove_seasonality\<close> turns the flat series
  \<open>[2, 2, 2]\<close> into \<open>[3, 3, 2]\<close> and the series \<open>[0, 4, 7]\<close> into
  \<open>[11 / 4, 33 / 4, 7]\<close>.
\<close>

theorem odd_length_series_corrupted:
  "length (buffer store_flat (data series3)) = 3 \<and>
   rfft (buffer store_flat (data series3)) = Inr spectrum_flat \<and>
   irfft spectrum_flat = Inr [3, 3] \<and>
   remove_seasonality store_flat (Single series3) 1 (1 / 100) False
     = ([NoFrequenciesRemoved, HintPlot], [[2, 2, 2], [3, 3, 2]],
        Inr (Single (series3\<lparr>data := 1\<rparr>))) \<and>
   rfft (buffer store3 (data series3)) = Inr spectrum3 \<and>
   irfft spectrum3 = Inr [11 / 4, 33 / 4] \<and>
   remove_seasonality store3 (Single series3) 1 (1 / 100) False
     = ([NoFrequenciesRemoved, HintPlot], [[0, 4, 7], [11 / 4, 33 / 4, 7]],
        Inr (Single (series3\<lparr>data := 1\<rparr>)))"
proof -
  have a: "remove_seasonality store3 (Single series3) 1 (1 / 100) False
     = ([NoFrequenciesRemoved, HintPlot], [[0, 4, 7], [11 / 4, 33 / 4, 7]],
        Inr (Single (series3\<lparr>data := 1\<rparr>)))"
    by (simp add: remove_seasonality_def copy_def remove_seasonality_fourier_def time_data_def
        axis_data_def series3_def store3_def buffer_def sample_spacing_def elem_def rfft3
        rfftfreq3 filter_band3 irfft3 write_prefix_def)
  have b: "remove_seasonality store_flat (Single series3) 1 (1 / 100) False
     = ([NoFrequenciesRemoved, HintPlot], [[2, 2, 2], [3, 3, 2]],
        Inr (Single (series3\<lparr>data := 1\<rparr>)))"
    by (simp add: remove_seasonality_def copy_def remove_seasonality_fourier_def time_data_def
        axis_data_def series3_def store_flat_def buffer_def sample_spacing_def elem_def
        rfft_flat rfftfreq3 filter_band3 irfft_flat write_prefix_def)
  have c: "buffer store3 (data series3) = [0, 4, 7]" "buffer store_flat (data series3) = [2, 2, 2]"
    by (simp_all add: store3_def store_flat_def series3_def buffer_def)
  from a b show ?thesis by (simp add: c rfft3 rfft_flat irfft3 irfft_flat)
qed

subsection \<open>The caller's arrays\<close>

text \<open>
  C4. The claim fails on the list path: the arrays of the list are passed to the filter
  as they are, and the filter writes into their buffers. After the call on the list of
  the one series \<open>series4\<close>, the buffer of the caller's array holds the filtered values.
  The single-array path copies its argument first (\<open>remove_seasonality_single4\<close>).
\<close>

theorem list_path_overwrites_input:
  "buffer store4 (data series4) = [0, 1, 0, 0] \<and>
   remove_seasonality store4 (Many [series4]) (1 / 4) (1 / 10) False
     = ([], [[1 / 2, 1 / 2, - 1 / 2, 1 / 2]], Inr (Many [series4])) \<and>
   buffer [[1 / 2, 1 / 2, - 1 / 2, 1 / 2]] (data series4) = [1 / 2, 1 / 2, - 1 / 2, 1 / 2]"
  by (simp add: remove_seasonality_def fourier4) (simp add: store4_def series4_def buffer_def)

subsection \<open>The time axis\<close>

lemma sample_spacing_short_dates:
  assumes "\<forall>t \<in> set ts. is_date t" and "length ts < 12"
  shows "sample_spacing ts = Inl IndexError"
proof (cases ts)
  case Nil
  then show ?thesis by (simp add: sample_spacing_def elem_def)
next
  case (Cons t0 rest)
  with assms(1) have "is_date t0" by simp
  then have "\<not> is_float t0" by (cases t0) auto
  with Cons \<open>is_date t0\<close> assms(2) show ?thesis
    by (simp add: sample_spacing_def elem_def)
qed

lemma sample_spacing_unsupported:
  "sample_spacing ts = Inl (TypeError ''I cannot handle time arrays'') \<longleftrightarrow>
     (\<exists>t0 rest. ts = t0 # rest \<and> \<not> is_float t0 \<and> \<not> is_date t0)"
proof (cases ts)
  case Nil
  then show ?thesis by (simp add: sample_spacing_def elem_def)
next
  case (Cons t0 rest)
  have fs: "float_sub a b \<noteq> Inl (TypeError ''I cannot handle time arrays'')" for a b
    by (cases "(a, b)" rule: float_sub.cases) auto
  have ds: "date_sub a b \<noteq> Inl (TypeError ''I cannot handle time arrays'')" for a b
    by (cases "(a, b)" rule: date_sub.cases) auto
  from Cons fs ds show ?thesis
    by (auto simp: sample_spacing_def elem_def split: sum.splits if_splits)
qed

lemma fourier_short_dates:
  assumes "coords arr ''time'' = Some ts" and "\<forall>t \<in> set ts. is_date t" and "length ts < 12"
  shows "remove_seasonality_fourier h arr freq radius plot = ([], h, Inl IndexError)"
  using assms(1) sample_spacing_short_dates[OF assms(2,3)]
  by (simp add: remove_seasonality_fourier_def time_data_def axis_data_def)

lemma fourier_unsupported:
  "snd (snd (remove_seasonality_fourier h arr freq radius plot))
      = Inl (TypeError ''I cannot handle time arrays'') \<longleftrightarrow>
   (\<exists>t0 rest. time_data arr = Inr (t0 # rest) \<and> \<not> is_float t0 \<and> \<not> is_date t0)"
proof (cases "time_data arr")
  case (Inl e)
  then have "e = AttributeError ''time''"
    by (auto simp: time_data_def axis_data_def split: option.splits)
  with Inl show ?thesis by (simp add: remove_seasonality_fourier_def)
next
  case Some: (Inr ts)
  show ?thesis
  proof (cases "sample_spacing ts")
    case (Inl e)
    with Some sample_spacing_unsupported[of ts] show ?thesis
      by (auto simp: remove_seasonality_fourier_def)
  next
    case (Inr sp)
    with sample_spacing_unsupported[of ts]
    have no: "\<not> (\<exists>t0 rest. ts = t0 # rest \<and> \<not> is_float t0 \<and> \<not> is_date t0)"
      by simp
    have "snd (snd (remove_seasonality_fourier h arr freq radius plot))
            \<noteq> Inl (TypeError ''I cannot handle time arrays'')"
      using Some Inr
      by (auto simp: remove_seasonality_fourier_def rfft_def irfft_def
          rfftfreq_def write_prefix_def Let_def
          split: sum.splits prod.splits if_splits spacing.splits dest: filter_band_error)
    with Some no show ?thesis by auto
  qed
qed

text \<open>
  C10. An array whose time axis holds calendar dates and has fewer than 12 samples
  makes \<^verbatim>\<open>_remove_seasonality_fourier\<close> end with \<^verbatim>\<open>IndexError\<close>, and so \<^verbatim>\<open>remove_seasonality\<close>
  on that array and on a list that starts with it. The UnsupportedTimeAxis condition is
  the result exactly when the time axis (\<^verbatim>\<open>arr.time.data\<close>) is not empty and its first
  element is neither a float nor a calendar date.
\<close>

theorem short_date_axis:
  "(coords arr ''time'' = Some ts \<and> (\<forall>t \<in> set ts. is_date t) \<and> length ts < 12 \<longrightarrow>
      snd (snd (remove_seasonality_fourier h arr freq radius plot)) = Inl IndexError \<and>
      snd (snd (remove_seasonality h (Single arr) freq radius plot)) = Inl IndexError \<and>
      snd (snd (remove_seasonality h (Many (arr # rest)) freq radius plot)) = Inl IndexError) \<and>
   (snd (snd (remove_seasonality_fourier h arr freq radius plot))
      = Inl (TypeError ''I cannot handle time arrays'') \<longleftrightarrow>
    (\<exists>t0 ts'. time_data arr = Inr (t0 # ts') \<and> \<not> is_float t0 \<and> \<not> is_date t0))"
proof -
  have "snd (snd (remove_seasonality_fourier h arr freq radius plot)) = Inl IndexError \<and>
      snd (snd (remove_seasonality h (Single arr) freq radius plot)) = Inl IndexError \<and>
      snd (snd (remove_seasonality h (Many (arr # rest)) freq radius plot)) = Inl IndexError"
    if t: "coords arr ''time'' = Some ts" and d: "\<forall>t \<in> set ts. is_date t" and l: "length ts < 12"
  proof -
    have c: "coords (arr\<lparr>data := length h\<rparr>) ''time'' = Some ts" using t by simp
    show ?thesis
      by (simp add: remove_seasonality_def copy_def fourier_short_dates[OF t d l]
          fourier_short_dates[OF c d l])
  qed
  with fourier_unsupported[of h arr freq radius plot] show ?thesis by blast
qed

theorem short_date_axis_witness:
  "coords dated3 ''time'' = Some [CDate 0, CDate 2678400, CDate 5097600] \<and>
   snd (snd (remove_seasonality store3 (Single dated3) 1 (1 / 100) False)) = Inl IndexError \<and>
   snd (snd (remove_seasonality store3 (Many [dated3]) 1 (1 / 100) False)) = Inl IndexError \<and>
   snd (snd (remove_seasonality_fourier store3 stamped3 1 (1 / 100) False))
     = Inl (TypeError ''I cannot handle time arrays'')"
proof -
  have a: "coords dated3 ''time'' = Some [CDate 0, CDate 2678400, CDate 5097600]"
    by (simp add: dated3_def)
  have b: "time_data stamped3
             = Inr (COther ''datetime64'' # [COther ''datetime64'', COther ''datetime64''])"
    by (simp add: time_data_def axis_data_def stamped3_def)
  from short_date_axis[of dated3 "[CDate 0, CDate 2678400, CDate 5097600]" store3 1 "1 / 100"
         False "[]"]
       short_date_axis[of stamped3 "[]" store3 1 "1 / 100" False "[]"] a b
  show ?thesis by auto
qed

end
